theory Spec2Isabelle
  imports Complex_Main
begin

section \<open>JavaScript numbers and truthiness\<close>

text \<open>
  The player keeps its cursor in a JavaScript number. Every index the code computes is an
  integer or \<open>NaN\<close> (the remainder by a playlist length of zero), so a number is modelled
  as an integer or \<open>NaN\<close>; \<open>NaN\<close> is absorbing for \<open>+\<close> and \<open>%\<close>.
  The remainder \<open>a % b\<close> of JavaScript truncates: its sign is the sign of \<open>a\<close>.
\<close>

datatype jsnum = Num int | NaN

definition js_rem :: "int \<Rightarrow> int \<Rightarrow> jsnum" where
  "js_rem a b = (if b = 0 then NaN else Num (sgn a * (\<bar>a\<bar> mod \<bar>b\<bar>)))"

fun js_plus :: "jsnum \<Rightarrow> int \<Rightarrow> jsnum" where
  "js_plus (Num a) b = Num (a + b)"
| "js_plus NaN b = NaN"

fun js_mod :: "jsnum \<Rightarrow> int \<Rightarrow> jsnum" where
  "js_mod (Num a) b = js_rem a b"
| "js_mod NaN b = NaN"

text \<open>Truthiness of an optional number (\<open>undefined\<close>, \<open>null\<close> and \<open>0\<close> are falsy) and of an
  optional string (\<open>undefined\<close>, \<open>null\<close> and the empty string are falsy).\<close>

fun truthy_num :: "int option \<Rightarrow> bool" where
  "truthy_num None = False"
| "truthy_num (Some n) = (n \<noteq> 0)"

fun truthy_str :: "string option \<Rightarrow> bool" where
  "truthy_str None = False"
| "truthy_str (Some s) = (s \<noteq> [])"

text \<open>\<open>xs[i]\<close> on an array: \<open>undefined\<close> (here \<open>None\<close>) outside the array and at \<open>NaN\<close>.\<close>

fun js_index :: "'a list \<Rightarrow> jsnum \<Rightarrow> 'a option" where
  "js_index xs (Num i) = (if 0 \<le> i \<and> i < int (length xs) then Some (xs ! nat i) else None)"
| "js_index xs NaN = None"


section \<open>Playlist items and the manifest (MediaPlayer.tsx, deviceService.js)\<close>

text \<open>\<open>interface PlaylistItem\<close> of MediaPlayer.tsx. The field \<open>order\<close> is filled from the
  raw item's \<open>playlist_id\<close> and may be absent.\<close>

record PlaylistItem =
  item_id :: int
  item_type :: string
  url :: string
  duration_seconds :: "int option"
  order_ :: "int option"
  active :: bool
  checksum :: "string option"

text \<open>One element of \<open>response.data.data\<close> as the client reads it (\<open>item: any\<close>): the fields
  the client looks at, each possibly absent. The array element itself may be \<open>null\<close>, which
  is \<open>None\<close> at the list level.\<close>

record raw_item =
  raw_content_id :: "int option"
  raw_id :: "int option"
  raw_playlist_id :: "int option"
  raw_type :: string
  raw_url :: "string option"
  raw_duration_seconds :: "int option"
  raw_checksum :: "string option"

text \<open>One row of the SQL query of \<open>DeviceService.getDeviceManifest\<close>.\<close>

record manifest_row =
  row_playlist_id :: int
  row_content_id :: int
  row_order_index :: int
  row_playlist_duration :: "int option"
  row_type :: string
  row_file_path :: "string option"
  row_checksum :: "string option"
  row_content_duration :: "int option"

text \<open>\<open>a || b\<close> for an optional number \<open>a\<close> and a number \<open>b\<close>.\<close>

fun js_or :: "int option \<Rightarrow> int \<Rightarrow> int" where
  "js_or None b = b"
| "js_or (Some a) b = (if a \<noteq> 0 then a else b)"

text \<open>The object \<open>getDeviceManifest\<close> builds for one row. It has an \<open>id\<close> (the row's
  \<open>content_id\<close>) and a \<open>playlist_id\<close>; it has no field named \<open>content_id\<close>.\<close>

definition manifest_entry :: "string \<Rightarrow> manifest_row \<Rightarrow> raw_item" where
  "manifest_entry baseUrl r =
     \<lparr> raw_content_id = None,
       raw_id = Some (row_content_id r),
       raw_playlist_id = Some (row_playlist_id r),
       raw_type = row_type r,
       raw_url = (case row_file_path r of
                    None \<Rightarrow> None
                  | Some fp \<Rightarrow> if fp \<noteq> [] then Some (baseUrl @ ''/'' @ fp) else None),
       raw_duration_seconds = (if row_type r = ''image''
                               then Some (js_or (row_playlist_duration r) 10)
                               else row_content_duration r),
       raw_checksum = row_checksum r \<rparr>"

text \<open>\<open>getDeviceManifest\<close>: the query result is \<open>None\<close> when \<open>db.execute\<close> throws; the
  \<open>catch\<close> branch returns the empty array.\<close>

definition getDeviceManifest :: "string \<Rightarrow> manifest_row list option \<Rightarrow> raw_item list" where
  "getDeviceManifest baseUrl q =
     (case q of None \<Rightarrow> [] | Some rows \<Rightarrow> map (manifest_entry baseUrl) rows)"

text \<open>The client's filter \<open>item && item.content_id && item.url\<close> and its \<open>map\<close>.\<close>

fun manifest_item_ok :: "raw_item option \<Rightarrow> bool" where
  "manifest_item_ok None = False"
| "manifest_item_ok (Some it) = (truthy_num (raw_content_id it) \<and> truthy_str (raw_url it))"

definition to_playlist_item :: "raw_item \<Rightarrow> PlaylistItem" where
  "to_playlist_item it =
     \<lparr> item_id = the (raw_content_id it),
       item_type = raw_type it,
       url = the (raw_url it),
       duration_seconds = raw_duration_seconds it,
       order_ = raw_playlist_id it,
       active = True,
       checksum = raw_checksum it \<rparr>"

definition transformedPlaylist :: "raw_item option list \<Rightarrow> PlaylistItem list" where
  "transformedPlaylist serverPlaylist =
     map (\<lambda>x. to_playlist_item (the x)) (filter manifest_item_ok serverPlaylist)"

text \<open>What the response body of \<open>GET /player/:id/manifest\<close> carries when the manifest was
  built by \<open>getDeviceManifest\<close>: every element is an object, none is \<open>null\<close>.\<close>

definition manifest_response :: "string \<Rightarrow> manifest_row list option \<Rightarrow> raw_item option list" where
  "manifest_response baseUrl q = map Some (getDeviceManifest baseUrl q)"


section \<open>Device storage (utils/deviceStorage)\<close>

text \<open>
  MediaPlayer.tsx calls \<open>deviceStorage.savePlaylist\<close>, \<open>getPlaylist\<close>, \<open>isCached\<close>,
  \<open>getCachedMedia\<close> and \<open>cacheMedia\<close>; the module itself is not among the sources, so it
  is modelled from the specification (sections 3, 4.1 and 4.2). The digest function is a
  parameter \<open>dg\<close>; the clock is a parameter \<open>now\<close>.
\<close>

type_synonym bytes = "nat list"

text \<open>Modelled from the spec: the type of cache entries is missing; section 3 gives a
  \<open>CacheEntry\<close> a content id, the stored bytes, their digest and the time of caching, and
  allows at most one entry per content id.\<close>

record CacheEntry =
  contentId :: string
  blobRef :: bytes
  digest :: string
  cachedAt :: int

record device_storage =
  stored_playlist :: "PlaylistItem list"
  media :: "CacheEntry list"

datatype storage_error = IntegrityError

text \<open>Modelled from the spec: \<open>deviceStorage.savePlaylist\<close> is missing; it persists the
  normalized manifest to local durable storage, distinct from the media cache.\<close>

definition savePlaylist :: "device_storage \<Rightarrow> PlaylistItem list \<Rightarrow> device_storage" where
  "savePlaylist s pl = s\<lparr>stored_playlist := pl\<rparr>"

text \<open>Modelled from the spec: \<open>deviceStorage.getPlaylist\<close> is missing
  (\<open>loadCachedManifest\<close>); it returns the last successfully persisted manifest, empty when
  there is none.\<close>

definition getPlaylist :: "device_storage \<Rightarrow> PlaylistItem list" where
  "getPlaylist s = stored_playlist s"

text \<open>Modelled from the spec: the lookup of the entry of a content id is missing.\<close>

definition find_entry :: "device_storage \<Rightarrow> string \<Rightarrow> CacheEntry option" where
  "find_entry s cid = find (\<lambda>e. contentId e = cid) (media s)"

text \<open>Modelled from the spec: \<open>deviceStorage.isCached\<close> is missing (\<open>has\<close>); true if an
  entry exists and, when an expected digest is given, its stored digest matches.\<close>

definition isCached :: "device_storage \<Rightarrow> string \<Rightarrow> string option \<Rightarrow> bool" where
  "isCached s cid expectedDigest =
     (case find_entry s cid of
        None \<Rightarrow> False
      | Some e \<Rightarrow> (case expectedDigest of None \<Rightarrow> True | Some d \<Rightarrow> digest e = d))"

text \<open>Modelled from the spec: \<open>deviceStorage.getCachedMedia\<close> is missing (\<open>get\<close>); it
  returns the cached bytes or a miss, and does not refetch.\<close>

definition getCachedMedia :: "device_storage \<Rightarrow> string \<Rightarrow> bytes option" where
  "getCachedMedia s cid = map_option blobRef (find_entry s cid)"

text \<open>Modelled from the spec: the eviction policy is missing; entries are evicted under
  capacity pressure oldest \<open>cachedAt\<close> first, and the maximum entry count is the policy
  constant 50. Among entries of equal age the earliest in the store is taken.\<close>

fun oldest :: "CacheEntry list \<Rightarrow> CacheEntry option" where
  "oldest [] = None"
| "oldest (e # es) =
     (case oldest es of
        None \<Rightarrow> Some e
      | Some m \<Rightarrow> if cachedAt e \<le> cachedAt m then Some e else Some m)"

definition max_entries :: nat where
  "max_entries = 50"

definition evict_if_full :: "CacheEntry list \<Rightarrow> CacheEntry list" where
  "evict_if_full es =
     (if length es \<ge> max_entries
      then (case oldest es of
              None \<Rightarrow> es
            | Some m \<Rightarrow> filter (\<lambda>e. contentId e \<noteq> contentId m) es)
      else es)"

text \<open>Modelled from the spec: \<open>deviceStorage.cacheMedia\<close> is missing (\<open>put\<close>); it computes
  the digest over the bytes; if an expected digest is provided and mismatched it rejects
  the write and does not persist; otherwise it replaces the entry of the same id, evicting
  the oldest entry first when the store is at capacity.\<close>

definition cacheMedia ::
  "(bytes \<Rightarrow> string) \<Rightarrow> int \<Rightarrow> device_storage \<Rightarrow> string \<Rightarrow> bytes \<Rightarrow> string option
     \<Rightarrow> storage_error + device_storage" where
  "cacheMedia dg now s cid blob expectedDigest =
     (let d = dg blob in
      if (case expectedDigest of None \<Rightarrow> False | Some x \<Rightarrow> x \<noteq> d)
      then Inl IntegrityError
      else
        let others = filter (\<lambda>e. contentId e \<noteq> cid) (media s);
            entry = \<lparr> contentId = cid, blobRef = blob, digest = d, cachedAt = now \<rparr>
        in Inr (s\<lparr>media := evict_if_full others @ [entry]\<rparr>))"


section \<open>The player component (MediaPlayer.tsx)\<close>

text \<open>
  The component's state, together with the device storage it writes and a log of the
  network requests it has issued. Telemetry sent over the socket and the play/pause flag
  of the video element are not part of the model.
\<close>

datatype request = GetManifest int | FetchMedia string

datatype load_error =
    UsingCachedPlaylist    \<comment> \<open>'Usando playlist em cache (offline)'\<close>
  | NoContentAvailable     \<comment> \<open>'Nenhum conteudo disponivel'\<close>

text \<open>A media URL handed to the renderer: an object URL made from bytes
  (\<open>URL.createObjectURL\<close>) or the item's own URL.\<close>

datatype media_src = ObjectUrl bytes | DirectUrl string

record mp_state =
  playlist :: "PlaylistItem list"
  currentIndex :: jsnum
  isLoading :: bool
  error :: "load_error option"
  isOnline :: bool
  currentMediaUrl :: "media_src option"
  nextMediaUrl :: "media_src option"
  isPreloading :: bool
  storage :: device_storage
  requests :: "request list"

text \<open>\<open>interface MediaPlayerProps\<close>.\<close>

record MediaPlayerProps =
  deviceId :: int
  isBlocked :: bool

text \<open>What the outside world answers: the device token in \<open>localStorage\<close>, the reply to
  the manifest request (\<open>ApiFailure\<close> when \<open>api.get\<close> rejects; otherwise
  \<open>response.data.data\<close>, possibly absent), and the reply to a media download
  (\<open>None\<close> when \<open>fetch\<close> rejects or the response is not ok).\<close>

datatype api_response = ApiFailure | ApiSuccess "raw_item option list option"

record env =
  device_token :: "string option"
  manifest_reply :: api_response
  media_reply :: "string \<Rightarrow> bytes option"

definition initial_state :: "bool \<Rightarrow> device_storage \<Rightarrow> mp_state" where
  "initial_state online s =
     \<lparr> playlist = [], currentIndex = Num 0, isLoading = True, error = None,
       isOnline = online, currentMediaUrl = None, nextMediaUrl = None,
       isPreloading = False, storage = s, requests = [] \<rparr>"

text \<open>The \<open>catch\<close> branch of \<open>loadPlaylist\<close>, followed by its \<open>finally\<close>.\<close>

definition loadPlaylist_catch :: "mp_state \<Rightarrow> mp_state" where
  "loadPlaylist_catch st =
     (let cachedPlaylist = getPlaylist (storage st) in
      if length cachedPlaylist > 0
      then st\<lparr>playlist := cachedPlaylist, error := Some UsingCachedPlaylist, isLoading := False\<rparr>
      else st\<lparr>error := Some NoContentAvailable, isLoading := False\<rparr>)"

definition loadPlaylist :: "int \<Rightarrow> env \<Rightarrow> mp_state \<Rightarrow> mp_state" where
  "loadPlaylist dev e st0 =
     (let st = st0\<lparr>isLoading := True\<rparr> in
      if isOnline st then
        (case device_token e of
           None \<Rightarrow> loadPlaylist_catch st
         | Some tok \<Rightarrow>
             if tok = [] then loadPlaylist_catch st
             else
               let st1 = st\<lparr>requests := requests st @ [GetManifest dev]\<rparr> in
               (case manifest_reply e of
                  ApiFailure \<Rightarrow> loadPlaylist_catch st1
                | ApiSuccess d \<Rightarrow>
                    let serverPlaylist = (case d of None \<Rightarrow> [] | Some xs \<Rightarrow> xs);
                        tp = transformedPlaylist serverPlaylist
                    in st1\<lparr>storage := savePlaylist (storage st1) tp, playlist := tp,
                           error := None, isLoading := False\<rparr>))
      else st\<lparr>playlist := getPlaylist (storage st), error := None, isLoading := False\<rparr>)"

text \<open>A manifest fetch fails when the device is online and either holds no token (the
  code throws before the request) or \<open>api.get\<close> rejects.\<close>

definition fetch_failed :: "env \<Rightarrow> mp_state \<Rightarrow> bool" where
  "fetch_failed e st =
     (isOnline st \<and> (\<not> truthy_str (device_token e) \<or> manifest_reply e = ApiFailure))"

text \<open>\<open>preloadMedia\<close>: a cache hit returns an object URL of the cached bytes; otherwise the
  media is downloaded, cached when the item has a checksum, and an object URL of the
  download is returned. Any failure falls back to the item's own URL.\<close>

definition preloadMedia ::
  "(bytes \<Rightarrow> string) \<Rightarrow> int \<Rightarrow> env \<Rightarrow> PlaylistItem \<Rightarrow> mp_state \<Rightarrow> media_src \<times> mp_state" where
  "preloadMedia dg now e item st =
     (case (if isCached (storage st) (url item) (checksum item)
            then getCachedMedia (storage st) (url item) else None) of
        Some cachedBlob \<Rightarrow> (ObjectUrl cachedBlob, st)
      | None \<Rightarrow>
          let st1 = st\<lparr>requests := requests st @ [FetchMedia (url item)]\<rparr> in
          (case media_reply e (url item) of
             None \<Rightarrow> (DirectUrl (url item), st1)
           | Some blob \<Rightarrow>
               if truthy_str (checksum item) then
                 (case cacheMedia dg now (storage st1) (url item) blob (checksum item) of
                    Inl err \<Rightarrow> (DirectUrl (url item), st1)
                  | Inr s' \<Rightarrow> (ObjectUrl blob, st1\<lparr>storage := s'\<rparr>))
               else (ObjectUrl blob, st1)))"

text \<open>The index update the component performs in three places:
  \<open>setCurrentIndex((prev) => (prev + 1) % playlist.length)\<close>.\<close>

definition handleMediaEnd :: "mp_state \<Rightarrow> mp_state" where
  "handleMediaEnd st =
     st\<lparr>currentIndex := js_mod (js_plus (currentIndex st) 1) (int (length (playlist st)))\<rparr>"

definition loadCurrentMedia ::
  "(bytes \<Rightarrow> string) \<Rightarrow> int \<Rightarrow> env \<Rightarrow> mp_state \<Rightarrow> mp_state" where
  "loadCurrentMedia dg now e st =
     (if length (playlist st) = 0 then st
      else
        (case js_index (playlist st) (currentIndex st) of
           None \<Rightarrow> handleMediaEnd st
         | Some currentItem \<Rightarrow>
             if \<not> active currentItem then handleMediaEnd st
             else
               let (currentUrl, st1) = preloadMedia dg now e currentItem (st\<lparr>isPreloading := True\<rparr>);
                   st2 = st1\<lparr>currentMediaUrl := Some currentUrl\<rparr>;
                   nextIndex = js_mod (js_plus (currentIndex st) 1) (int (length (playlist st)))
               in (case js_index (playlist st) nextIndex of
                     None \<Rightarrow> st2\<lparr>isPreloading := False\<rparr>
                   | Some nextItem \<Rightarrow>
                       if active nextItem
                       then (let (nextUrl, st3) = preloadMedia dg now e nextItem st2
                             in st3\<lparr>nextMediaUrl := Some nextUrl, isPreloading := False\<rparr>)
                       else st2\<lparr>isPreloading := False\<rparr>)))"

text \<open>\<open>handleCommand\<close>: the \<open>switch\<close> on \<open>command.type\<close>. \<open>play\<close> and \<open>pause\<close> act on the
  video element only; every type without a \<open>case\<close> reaches \<open>default\<close>, which logs. The
  function is given as the mapping it computes; its only caller is the \<open>command\<close> listener
  of the socket (see \<open>initWebSocket\<close> below).\<close>

definition handleCommand :: "string \<Rightarrow> mp_state \<Rightarrow> mp_state" where
  "handleCommand ctype st =
     (if ctype = ''play'' then st
      else if ctype = ''pause'' then st
      else if ctype = ''next'' then handleMediaEnd st
      else if ctype = ''restart'' then st\<lparr>currentIndex := Num 0\<rparr>
      else st)"

text \<open>The image timer effect: the delay in milliseconds of the timer it arms, \<open>None\<close> when
  it arms none. The effect is re-run whenever index or playlist change, so the armed timer
  is always the one of the current item.\<close>

definition imageTimer :: "mp_state \<Rightarrow> int option" where
  "imageTimer st =
     (case js_index (playlist st) (currentIndex st) of
        None \<Rightarrow> None
      | Some currentItem \<Rightarrow>
          (case duration_seconds currentItem of
             None \<Rightarrow> None
           | Some d \<Rightarrow> if item_type currentItem = ''image'' \<and> d \<noteq> 0
                        then Some (d * 1000) else None))"

text \<open>What the component returns. A media element exists only in the last two cases.\<close>

datatype view =
    BlockedScreen | LoadingScreen | NoContentScreen | PreparingScreen
  | VideoElement media_src | ImgElement media_src

fun src_truthy :: "media_src option \<Rightarrow> bool" where
  "src_truthy None = False"
| "src_truthy (Some (ObjectUrl b)) = True"
| "src_truthy (Some (DirectUrl u)) = (u \<noteq> [])"

definition render :: "MediaPlayerProps \<Rightarrow> mp_state \<Rightarrow> view" where
  "render props st =
     (if isBlocked props then BlockedScreen
      else if isLoading st then LoadingScreen
      else if error st \<noteq> None \<and> length (playlist st) = 0 then NoContentScreen
      else
        (case js_index (playlist st) (currentIndex st) of
           None \<Rightarrow> PreparingScreen
         | Some currentItem \<Rightarrow>
             if \<not> src_truthy (currentMediaUrl st) then PreparingScreen
             else if item_type currentItem = ''video''
             then VideoElement (the (currentMediaUrl st))
             else ImgElement (the (currentMediaUrl st))))"

text \<open>
  The socket. \<open>connectWebSocket\<close> (utils/websocket) returns the \<open>Socket\<close> that
  \<open>io(wsUrl, ...)\<close> of socket.io-client creates. The property \<open>io\<close> of such a socket is its
  manager, an object and not a function, so the call \<open>ws.io(...)\<close> throws a \<open>TypeError\<close>.
  In \<open>initWebSocket\<close> (MediaPlayer.tsx line 113) the call stands inside the \<open>try\<close>, before
  the listeners for \<open>connect\<close>, \<open>playlist:update\<close> and \<open>command\<close> are registered, and the
  \<open>catch\<close> only logs: no listener is ever registered, and \<open>handleCommand\<close>, whose only
  caller is the \<open>command\<close> listener, never runs.
\<close>

datatype js_kind = JsFunction | JsObject

definition socket_io_property :: js_kind where
  "socket_io_property = JsObject"

fun js_callable :: "js_kind \<Rightarrow> bool" where
  "js_callable JsFunction = True"
| "js_callable JsObject = False"

datatype socket_listener = OnConnect | OnPlaylistUpdate | OnCommand | OnConnectError

text \<open>\<open>initWebSocket\<close>: the listeners it has registered when it returns.\<close>

definition initWebSocket :: "string option \<Rightarrow> socket_listener list" where
  "initWebSocket token =
     (if \<not> truthy_str token then []
      else if js_callable socket_io_property then [OnConnect, OnPlaylistUpdate, OnCommand]
      else [])"

text \<open>
  The listeners on the video element. \<open>onLoadedData\<close> calls \<open>setupVideoHandlers\<close> at every
  \<open>loadeddata\<close> event; each call adds one \<open>ended\<close> and one \<open>error\<close> listener to the element
  and returns a function that would remove them, which the caller drops. React keeps the
  same \<open>video\<close> element as long as the component renders a video, so the listeners of
  earlier items stay on it; they go only when the element is unmounted. Each listener
  runs \<open>handleMediaEnd\<close> of the render that registered it, that is
  \<open>setCurrentIndex((prev) => (prev + 1) % playlist.length)\<close> with the playlist of that
  render. The listeners are state of the DOM, not of the component: \<open>videoListeners\<close> holds,
  for each listener pair on the mounted element, the playlist length it captured.
\<close>

record mp_dom =
  component :: mp_state
  videoListeners :: "int list"

definition run_listeners :: "int list \<Rightarrow> mp_state \<Rightarrow> mp_state" where
  "run_listeners lens st =
     foldl (\<lambda>s n. s\<lparr>currentIndex := js_mod (js_plus (currentIndex s) 1) n\<rparr>) st lens"

text \<open>The events the component reacts to: the image timer firing (possible only while a
  timer is armed), \<open>loadeddata\<close>, \<open>ended\<close> and \<open>error\<close> of the video element (possible only
  while a video element is rendered), \<open>onError\<close> of the image element (only while an image
  element is rendered), and a command the server emits on the socket.\<close>

datatype mp_event =
    ImageTimerFired | VideoLoadedData | VideoEnded | VideoError | ImageError
  | RemoteCommand string

fun is_video_view :: "view \<Rightarrow> bool" where
  "is_video_view (VideoElement u) = True"
| "is_video_view v = False"

fun is_img_view :: "view \<Rightarrow> bool" where
  "is_img_view (ImgElement u) = True"
| "is_img_view v = False"

text \<open>When the component no longer renders a video, the video element is unmounted and its
  listeners are gone.\<close>

definition settle :: "MediaPlayerProps \<Rightarrow> mp_dom \<Rightarrow> mp_dom" where
  "settle props d =
     (if is_video_view (render props (component d)) then d else d\<lparr>videoListeners := []\<rparr>)"

fun mp_handle :: "MediaPlayerProps \<Rightarrow> string option \<Rightarrow> mp_dom \<Rightarrow> mp_event \<Rightarrow> mp_dom" where
  "mp_handle props token d ImageTimerFired =
     (if imageTimer (component d) \<noteq> None
      then d\<lparr>component := handleMediaEnd (component d)\<rparr> else d)"
| "mp_handle props token d VideoLoadedData =
     (if is_video_view (render props (component d))
      then d\<lparr>videoListeners := videoListeners d @ [int (length (playlist (component d)))]\<rparr>
      else d)"
| "mp_handle props token d VideoEnded =
     (if is_video_view (render props (component d))
      then d\<lparr>component := run_listeners (videoListeners d) (component d)\<rparr> else d)"
| "mp_handle props token d VideoError =
     (if is_video_view (render props (component d))
      then d\<lparr>component := run_listeners (videoListeners d) (component d)\<rparr> else d)"
| "mp_handle props token d ImageError =
     (if is_img_view (render props (component d))
      then d\<lparr>component := handleMediaEnd (component d)\<rparr> else d)"
| "mp_handle props token d (RemoteCommand ctype) =
     (if OnCommand \<in> set (initWebSocket token)
      then d\<lparr>component := handleCommand ctype (component d)\<rparr> else d)"

definition mp_step :: "MediaPlayerProps \<Rightarrow> string option \<Rightarrow> mp_dom \<Rightarrow> mp_event \<Rightarrow> mp_dom" where
  "mp_step props token d ev = settle props (mp_handle props token d ev)"

text \<open>The effect on \<open>[playlist, currentIndex]\<close> that loads the media of the current item,
  followed by the render it causes.\<close>

definition media_effect ::
  "(bytes \<Rightarrow> string) \<Rightarrow> int \<Rightarrow> MediaPlayerProps \<Rightarrow> env \<Rightarrow> mp_dom \<Rightarrow> mp_dom" where
  "media_effect dg now props e d =
     settle props
       (d\<lparr>component := (if length (playlist (component d)) > 0
                          then loadCurrentMedia dg now e (component d)
                          else component d)\<rparr>)"

text \<open>A component with a freshly mounted tree: no listener on any element.\<close>

definition mounted :: "mp_state \<Rightarrow> mp_dom" where
  "mounted st = \<lparr> component = st, videoListeners = [] \<rparr>"

text \<open>What happens when the component mounts: the \<open>Initialize\<close> effect calls
  \<open>loadPlaylist\<close>, and the next effect calls \<open>loadCurrentMedia\<close> once the playlist is
  non-empty. Neither effect reads \<open>isBlocked\<close>.\<close>

definition MediaPlayer_mount ::
  "(bytes \<Rightarrow> string) \<Rightarrow> int \<Rightarrow> MediaPlayerProps \<Rightarrow> env \<Rightarrow> mp_state \<Rightarrow> mp_state" where
  "MediaPlayer_mount dg now props e st =
     (let st1 = loadPlaylist (deviceId props) e st in
      if length (playlist st1) > 0 then loadCurrentMedia dg now e st1 else st1)"


section \<open>The device application (DeviceApp.tsx)\<close>

text \<open>
  \<open>localStorage\<close> holds the token, the device id and the device UUID; the id is kept as
  the integer \<open>parseInt\<close> reads from it. The reply to the validating manifest request is
  either a body with its \<open>success\<close> flag or an error with \<open>error.response?.status\<close>.
\<close>

record local_storage =
  ls_device_token :: "string option"
  ls_device_id :: "int option"
  ls_device_uuid :: "string option"

datatype manifest_http = HttpOk bool | HttpError "int option"

record device_app =
  app_deviceId :: "int option"
  app_isBlocked :: bool
  app_isLoading :: bool
  app_deviceToken :: "string option"
  app_localStorage :: local_storage

definition device_app_initial :: "local_storage \<Rightarrow> device_app" where
  "device_app_initial ls =
     \<lparr> app_deviceId = None, app_isBlocked = False, app_isLoading = True,
       app_deviceToken = None, app_localStorage = ls \<rparr>"

definition clear_identity :: "local_storage \<Rightarrow> local_storage" where
  "clear_identity ls = ls\<lparr>ls_device_token := None, ls_device_id := None, ls_device_uuid := None\<rparr>"

definition initializeDevice :: "manifest_http \<Rightarrow> device_app \<Rightarrow> device_app" where
  "initializeDevice reply app =
     (let ls = app_localStorage app;
          app' =
            (case (ls_device_token ls, ls_device_id ls) of
               (Some storedToken, Some storedDeviceId) \<Rightarrow>
                 if storedToken = [] then app
                 else
                   (case reply of
                      HttpOk success \<Rightarrow>
                        if success
                        then app\<lparr>app_deviceId := Some storedDeviceId,
                                 app_deviceToken := Some storedToken\<rparr>
                        else app
                    | HttpError status \<Rightarrow>
                        if status = Some 404
                        then app\<lparr>app_localStorage := clear_identity ls\<rparr>
                        else if status = Some 403
                        then app\<lparr>app_isBlocked := True, app_deviceId := Some storedDeviceId\<rparr>
                        else app\<lparr>app_localStorage := clear_identity ls\<rparr>)
             | _ \<Rightarrow> app)
      in app'\<lparr>app_isLoading := False\<rparr>)"

definition handleOnboardingComplete :: "int \<Rightarrow> string \<Rightarrow> device_app \<Rightarrow> device_app" where
  "handleOnboardingComplete newDeviceId tok app =
     app\<lparr>app_deviceId := Some newDeviceId, app_deviceToken := Some tok\<rparr>"

datatype app_view = Initializing | Onboarding | Player MediaPlayerProps

definition DeviceApp_render :: "device_app \<Rightarrow> app_view" where
  "DeviceApp_render app =
     (if app_isLoading app then Initializing
      else if \<not> truthy_num (app_deviceId app) then Onboarding
      else Player \<lparr> deviceId = the (app_deviceId app), isBlocked = app_isBlocked app \<rparr>)"


section \<open>The video cache (services/videoCache)\<close>

text \<open>
  \<open>class VideoCache\<close> keeps a JavaScript \<open>Map\<close> from id to \<open>CachedVideo\<close>. A \<open>Map\<close>
  iterates in insertion order, \<open>set\<close> on a key that is present replaces the value and
  leaves the key where it is, and \<open>set\<close> on a new key appends: the map is an association
  list with distinct keys. The clock \<open>Date.now()\<close> is the parameter \<open>now\<close>. The copy
  written to \<open>localStorage\<close> is not modelled.
\<close>

record video_metadata =
  md_quality :: "string option"
  md_size :: "int option"
  md_format :: "string option"
  md_preloaded :: "bool option"

record CachedVideo =
  cv_id :: string
  cv_url :: string
  cv_cachedAt :: int
  cv_metadata :: "video_metadata option"

type_synonym video_map = "(string \<times> CachedVideo) list"

definition map_has :: "video_map \<Rightarrow> string \<Rightarrow> bool" where
  "map_has m k = (k \<in> set (map fst m))"

definition map_set :: "video_map \<Rightarrow> string \<Rightarrow> CachedVideo \<Rightarrow> video_map" where
  "map_set m k v =
     (if map_has m k then map (\<lambda>p. if fst p = k then (k, v) else p) m else m @ [(k, v)])"

definition map_delete :: "video_map \<Rightarrow> string \<Rightarrow> video_map" where
  "map_delete m k = filter (\<lambda>p. fst p \<noteq> k) m"

text \<open>\<open>this.cache.keys().next().value\<close>: the first key in insertion order, \<open>undefined\<close> on
  an empty map.\<close>

definition first_key :: "video_map \<Rightarrow> string option" where
  "first_key m = (case m of [] \<Rightarrow> None | p # ps \<Rightarrow> Some (fst p))"

definition MAX_CACHE_SIZE :: nat where
  "MAX_CACHE_SIZE = 50"

definition cacheVideo ::
  "int \<Rightarrow> video_map \<Rightarrow> string \<Rightarrow> string \<Rightarrow> video_metadata option \<Rightarrow> video_map" where
  "cacheVideo now cache vid vurl metadata =
     (let cache1 =
            (if length cache \<ge> MAX_CACHE_SIZE
             then (let oldestKey = first_key cache in
                   if truthy_str oldestKey then map_delete cache (the oldestKey) else cache)
             else cache);
          cachedVideo = \<lparr> cv_id = vid, cv_url = vurl, cv_cachedAt = now, cv_metadata = metadata \<rparr>
      in map_set cache1 vid cachedVideo)"

text \<open>A run of insertions: each is an id, a URL and the time of the call.\<close>

fun cacheVideos :: "video_map \<Rightarrow> (string \<times> string \<times> int) list \<Rightarrow> video_map" where
  "cacheVideos cache [] = cache"
| "cacheVideos cache ((vid, vurl, now) # rest) =
     cacheVideos (cacheVideo now cache vid vurl None) rest"

text \<open>The keys whose entry has the smallest \<open>cachedAt\<close> of the map.\<close>

definition oldest_cached_keys :: "video_map \<Rightarrow> string list" where
  "oldest_cached_keys m =
     map fst (filter (\<lambda>p. list_all (\<lambda>q. cv_cachedAt (snd p) \<le> cv_cachedAt (snd q)) m) m)"


section \<open>The display page (TVBoxDisplay.tsx)\<close>

record ContentItem =
  content_id :: string
  title :: string
  file_path :: string
  categoria :: string
  content_type :: string
  duration :: "int option"

record Announcement =
  announcement_id :: string
  display_duration :: int
  order_index :: int

text \<open>\<open>mediaAspectRatio\<close> starts as \<open>landscape\<close>; only the metadata of a loaded video
  changes it.\<close>

datatype aspect = Landscape | Portrait | Square

record tv_state =
  tv_currentIndex :: jsnum
  showingAnnouncement :: bool
  currentAnnouncementIndex :: int
  mediaAspectRatio :: aspect

definition tv_initial :: tv_state where
  "tv_initial = \<lparr> tv_currentIndex = Num 0, showingAnnouncement = False,
                  currentAnnouncementIndex = 0, mediaAspectRatio = Landscape \<rparr>"

definition goToNext :: "ContentItem list \<Rightarrow> tv_state \<Rightarrow> tv_state" where
  "goToNext content st =
     (if length content = 0 then st
      else st\<lparr>tv_currentIndex := js_mod (js_plus (tv_currentIndex st) 1) (int (length content))\<rparr>)"

definition goToPrevious :: "ContentItem list \<Rightarrow> tv_state \<Rightarrow> tv_state" where
  "goToPrevious content st =
     (if length content = 0 then st
      else st\<lparr>tv_currentIndex :=
                 js_mod (js_plus (js_plus (tv_currentIndex st) (- 1)) (int (length content)))
                        (int (length content))\<rparr>)"

text \<open>\<open>handleRemoteCommand\<close>: \<open>command.type\<close> and \<open>command.action\<close>. A \<open>power_control\<close>
  command with action \<open>restart\<close> reloads the page, which starts the component again from
  its initial state. The function is given as the mapping it computes; its only caller is
  the \<open>command\<close> listener of the socket effect below.\<close>

definition handleRemoteCommand ::
  "ContentItem list \<Rightarrow> string \<Rightarrow> string option \<Rightarrow> tv_state \<Rightarrow> tv_state" where
  "handleRemoteCommand content ctype action st =
     (if ctype = ''play'' then st
      else if ctype = ''pause'' then st
      else if ctype = ''next'' then goToNext content st
      else if ctype = ''previous'' then goToPrevious content st
      else if ctype = ''restart'' then st\<lparr>tv_currentIndex := Num 0\<rparr>
      else if ctype = ''power_control'' then
        (if action = Some ''shutdown'' then st
         else if action = Some ''restart'' then tv_initial
         else st)
      else st)"

text \<open>The socket effect of the page (lines 399-451). Without a stored token or a device id
  it returns at once. Otherwise it calls \<open>ws.io(...)\<close> on the socket of
  \<open>connectWebSocket\<close>, outside any \<open>try\<close>, before it registers a listener: the effect
  throws, and \<open>handleRemoteCommand\<close> is never called from the socket.\<close>

datatype effect_result = Registered "socket_listener list" | EffectThrows

definition tv_socket_effect :: "string option \<Rightarrow> string option \<Rightarrow> effect_result" where
  "tv_socket_effect token dev =
     (if \<not> truthy_str token \<or> \<not> truthy_str dev then Registered []
      else if js_callable socket_io_property
      then Registered [OnConnect, OnPlaylistUpdate, OnCommand, OnConnectError]
      else EffectThrows)"

text \<open>One tick of the auto-advance interval; \<open>rnd\<close> is the value \<open>Math.random()\<close> returns
  on that tick. The effect installs no interval when there is neither content nor an
  announcement.\<close>

definition auto_advance_tick ::
  "ContentItem list \<Rightarrow> Announcement list \<Rightarrow> real \<Rightarrow> tv_state \<Rightarrow> tv_state" where
  "auto_advance_tick content announcements rnd st =
     (if length content = 0 \<and> length announcements = 0 then st
      else if showingAnnouncement st then
        (if currentAnnouncementIndex st < int (length announcements) - 1
         then st\<lparr>currentAnnouncementIndex := currentAnnouncementIndex st + 1\<rparr>
         else
           (let st1 = st\<lparr>showingAnnouncement := False, currentAnnouncementIndex := 0\<rparr> in
            if length content > 0
            then st1\<lparr>tv_currentIndex :=
                       js_mod (js_plus (tv_currentIndex st1) 1) (int (length content))\<rparr>
            else st1))
      else
        (if length announcements > 0 \<and> rnd < 0.3
         then st\<lparr>showingAnnouncement := True, currentAnnouncementIndex := 0\<rparr>
         else if length content > 0
         then st\<lparr>tv_currentIndex :=
                    js_mod (js_plus (tv_currentIndex st) 1) (int (length content))\<rparr>
         else st))"

text \<open>What the page renders once its query has loaded. \<open>displayContent\<close> is the current
  announcement while one is showing and the list is non-empty, else the current content
  item. While \<open>showingAnnouncement\<close> is set, \<open>currentContent\<close> is \<open>null\<close>, and in every layout
  but portrait the render reads \<open>currentContent.title\<close> (line 630): it throws, and the
  page is unmounted. In the portrait layout the announcement branch renders
  \<open>currentAnnouncement\<close>, which is \<open>displayContent\<close> whatever its kind.\<close>

datatype display =
    ShowAnnouncement Announcement | ShowContentAsAnnouncement ContentItem
  | ShowContent ContentItem | NoContentScreenTV | ContentNotFound | RenderThrows

definition displayContent ::
  "ContentItem list \<Rightarrow> Announcement list \<Rightarrow> tv_state \<Rightarrow> display" where
  "displayContent content announcements st =
     (if length content = 0 \<and> length announcements = 0 then NoContentScreenTV
      else if showingAnnouncement st \<and> length announcements > 0
      then (case js_index announcements (Num (currentAnnouncementIndex st)) of
              None \<Rightarrow> ContentNotFound
            | Some a \<Rightarrow>
                if mediaAspectRatio st \<noteq> Portrait then RenderThrows
                else ShowAnnouncement a)
      else if length content > 0
      then (case js_index content (tv_currentIndex st) of
              None \<Rightarrow> ContentNotFound
            | Some c \<Rightarrow>
                if showingAnnouncement st
                then (if mediaAspectRatio st \<noteq> Portrait then RenderThrows
                      else ShowContentAsAnnouncement c)
                else ShowContent c)
      else NoContentScreenTV)"

text \<open>A run of ticks, one random draw per tick. A page whose render has thrown is
  unmounted and its interval cleared, so it ticks no more.\<close>

fun auto_advance_run ::
  "ContentItem list \<Rightarrow> Announcement list \<Rightarrow> real list \<Rightarrow> tv_state \<Rightarrow> tv_state list" where
  "auto_advance_run content announcements [] st = []"
| "auto_advance_run content announcements (rnd # rnds) st =
     (if displayContent content announcements st = RenderThrows then []
      else
        (let st' = auto_advance_tick content announcements rnd st
         in st' # auto_advance_run content announcements rnds st'))"

text \<open>The effect on \<open>[currentIndex, content]\<close>: a video is loaded, an image gets an
  interval that calls \<open>goToNext\<close>; the interval's delay is in milliseconds.\<close>

datatype content_effect = NoEffect | LoadVideo | ImageInterval int

definition content_item_effect :: "ContentItem list \<Rightarrow> tv_state \<Rightarrow> content_effect" where
  "content_item_effect content st =
     (if length content = 0 then NoEffect
      else
        (case js_index content (tv_currentIndex st) of
           None \<Rightarrow> NoEffect
         | Some currentContent \<Rightarrow>
             if categoria currentContent = ''video'' \<or> content_type currentContent = ''video''
             then LoadVideo
             else ImageInterval (js_or (duration currentContent) 10 * 1000)))"


section \<open>Concrete inputs\<close>

text \<open>Scenario A of the specification: an image shown for five seconds, then a video.
  The video carries a duration of thirty seconds from the server.\<close>

definition empty_storage :: device_storage where
  "empty_storage = \<lparr> stored_playlist = [], media = [] \<rparr>"

definition item_a :: PlaylistItem where
  "item_a = \<lparr> item_id = 1, item_type = ''image'', url = ''http://h/a.png'',
              duration_seconds = Some 5, order_ = Some 1, active = True, checksum = None \<rparr>"

definition item_b :: PlaylistItem where
  "item_b = \<lparr> item_id = 2, item_type = ''video'', url = ''http://h/b.mp4'',
              duration_seconds = Some 30, order_ = Some 2, active = True, checksum = None \<rparr>"

definition item_c :: PlaylistItem where
  "item_c = \<lparr> item_id = 3, item_type = ''image'', url = ''http://h/c.png'',
              duration_seconds = Some (- 5), order_ = Some 3, active = True,
              checksum = Some ''d2'' \<rparr>"

definition player_props :: MediaPlayerProps where
  "player_props = \<lparr> deviceId = 7, isBlocked = False \<rparr>"

definition blocked_props :: MediaPlayerProps where
  "blocked_props = \<lparr> deviceId = 7, isBlocked = True \<rparr>"

text \<open>The player at the image of scenario A, and at its video with the media resolved.\<close>

definition at_image :: mp_state where
  "at_image = (initial_state True empty_storage)
                \<lparr>playlist := [item_a, item_b], isLoading := False,
                 currentMediaUrl := Some (DirectUrl ''http://h/a.png'')\<rparr>"

definition at_video :: mp_state where
  "at_video = at_image\<lparr>currentIndex := Num 1,
                        currentMediaUrl := Some (DirectUrl ''http://h/b.mp4'')\<rparr>"

text \<open>A playlist of three videos; the player at its first item with the media resolved; and
  the run in which the first video loads and ends, the media of the second is resolved,
  and the second video loads and ends, on a server that refuses the downloads.\<close>

definition video_0 :: PlaylistItem where
  "video_0 = \<lparr> item_id = 10, item_type = ''video'', url = ''http://h/v0.mp4'',
               duration_seconds = Some 30, order_ = Some 1, active = True, checksum = None \<rparr>"

definition video_1 :: PlaylistItem where
  "video_1 = \<lparr> item_id = 11, item_type = ''video'', url = ''http://h/v1.mp4'',
               duration_seconds = Some 30, order_ = Some 2, active = True, checksum = None \<rparr>"

definition video_2 :: PlaylistItem where
  "video_2 = \<lparr> item_id = 12, item_type = ''video'', url = ''http://h/v2.mp4'',
               duration_seconds = Some 30, order_ = Some 3, active = True, checksum = None \<rparr>"

definition three_videos :: mp_dom where
  "three_videos =
     mounted ((initial_state True empty_storage)
                \<lparr>playlist := [video_0, video_1, video_2], isLoading := False,
                 currentMediaUrl := Some (DirectUrl ''http://h/v0.mp4'')\<rparr>)"

definition refusing_env :: env where
  "refusing_env = \<lparr> device_token = Some ''tok'', manifest_reply = ApiFailure,
                     media_reply = (\<lambda>u. None) \<rparr>"

definition first_video_loaded :: mp_dom where
  "first_video_loaded = mp_step player_props (Some ''tok'') three_videos VideoLoadedData"

definition first_video_ended :: mp_dom where
  "first_video_ended = mp_step player_props (Some ''tok'') first_video_loaded VideoEnded"

definition second_video_loaded :: mp_dom where
  "second_video_loaded =
     mp_step player_props (Some ''tok'')
       (media_effect (\<lambda>b. []) 0 player_props refusing_env first_video_ended) VideoLoadedData"

definition second_video_ended :: mp_dom where
  "second_video_ended = mp_step player_props (Some ''tok'') second_video_loaded VideoEnded"

text \<open>A player on a three-item playlist, at index 1.\<close>

definition three_items_at_1 :: mp_state where
  "three_items_at_1 = (initial_state True empty_storage)
                        \<lparr>playlist := [item_a, item_b, item_c], isLoading := False,
                         currentIndex := Num 1\<rparr>"

text \<open>A device that holds a token and a playlist persisted by an earlier run, and a
  server that answers the manifest request with an error.\<close>

definition cached_storage :: device_storage where
  "cached_storage = \<lparr> stored_playlist = [item_a, item_b], media = [] \<rparr>"

definition failing_env :: env where
  "failing_env = \<lparr> device_token = Some ''tok'', manifest_reply = ApiFailure,
                    media_reply = (\<lambda>u. None) \<rparr>"

definition stored_identity :: local_storage where
  "stored_identity = \<lparr> ls_device_token = Some ''tok'', ls_device_id = Some 7,
                        ls_device_uuid = Some ''uuid-7'' \<rparr>"

text \<open>One row of the playlist table: an image with content id 7 and no playlist
  duration.\<close>

definition row_7 :: manifest_row where
  "row_7 = \<lparr> row_playlist_id = 1, row_content_id = 7, row_order_index = 0,
             row_playlist_duration = None, row_type = ''image'',
             row_file_path = Some ''uploads/a.png'', row_checksum = Some ''d1'',
             row_content_duration = None \<rparr>"

text \<open>A media cache that holds \<open>http://h/c.png\<close> under the digest \<open>d1\<close>, while the
  manifest item \<open>item_c\<close> announces \<open>d2\<close> (scenario B); a digest function that maps every
  blob to \<open>d2\<close>, and one that maps every blob to \<open>d3\<close>.\<close>

definition stale_media :: device_storage where
  "stale_media = \<lparr> stored_playlist = [item_c],
                    media = [\<lparr> contentId = ''http://h/c.png'', blobRef = [1, 2, 3],
                               digest = ''d1'', cachedAt = 0 \<rparr>] \<rparr>"

definition serving_env :: env where
  "serving_env = \<lparr> device_token = Some ''tok'', manifest_reply = ApiFailure,
                    media_reply = (\<lambda>u. Some [4, 5, 6]) \<rparr>"

definition digest_d2 :: "bytes \<Rightarrow> string" where
  "digest_d2 b = ''d2''"

definition digest_d3 :: "bytes \<Rightarrow> string" where
  "digest_d3 b = ''d3''"

text \<open>Content and one announcement for the display page.\<close>

definition two_images :: "ContentItem list" where
  "two_images =
     [\<lparr> content_id = ''x'', title = ''x'', file_path = ''x.png'', categoria = ''image'',
        content_type = ''image'', duration = None \<rparr>,
      \<lparr> content_id = ''y'', title = ''y'', file_path = ''y.png'', categoria = ''image'',
        content_type = ''image'', duration = Some (- 5) \<rparr>]"

definition one_announcement :: "Announcement list" where
  "one_announcement = [\<lparr> announcement_id = ''n'', display_duration = 5, order_index = 0 \<rparr>]"

text \<open>Fifty-one insertions into the video cache: \<open>a\<close> first, then \<open>b\<close>, then \<open>a\<close> again
  (which refreshes its \<open>cachedAt\<close>), then forty-eight further ids. After them the cache
  holds fifty entries.\<close>

definition refresh_run :: "(string \<times> string \<times> int) list" where
  "refresh_run =
   [(''a'', ''u'', 1), (''b'', ''u'', 2), (''a'', ''u'', 3), (''c00'', ''u'', 4),
    (''c01'', ''u'', 5), (''c02'', ''u'', 6), (''c03'', ''u'', 7), (''c04'', ''u'', 8),
    (''c05'', ''u'', 9), (''c06'', ''u'', 10), (''c07'', ''u'', 11), (''c08'', ''u'', 12),
    (''c09'', ''u'', 13), (''c10'', ''u'', 14), (''c11'', ''u'', 15), (''c12'', ''u'', 16),
    (''c13'', ''u'', 17), (''c14'', ''u'', 18), (''c15'', ''u'', 19), (''c16'', ''u'', 20),
    (''c17'', ''u'', 21), (''c18'', ''u'', 22), (''c19'', ''u'', 23), (''c20'', ''u'', 24),
    (''c21'', ''u'', 25), (''c22'', ''u'', 26), (''c23'', ''u'', 27), (''c24'', ''u'', 28),
    (''c25'', ''u'', 29), (''c26'', ''u'', 30), (''c27'', ''u'', 31), (''c28'', ''u'', 32),
    (''c29'', ''u'', 33), (''c30'', ''u'', 34), (''c31'', ''u'', 35), (''c32'', ''u'', 36),
    (''c33'', ''u'', 37), (''c34'', ''u'', 38), (''c35'', ''u'', 39), (''c36'', ''u'', 40),
    (''c37'', ''u'', 41), (''c38'', ''u'', 42), (''c39'', ''u'', 43), (''c40'', ''u'', 44),
    (''c41'', ''u'', 45), (''c42'', ''u'', 46), (''c43'', ''u'', 47), (''c44'', ''u'', 48),
    (''c45'', ''u'', 49), (''c46'', ''u'', 50), (''c47'', ''u'', 51)]"

text \<open>Fifty insertions of which the first has the empty string as its id.\<close>

definition empty_id_run :: "(string \<times> string \<times> int) list" where
  "empty_id_run =
   [('''', ''u'', 1), (''d00'', ''u'', 2), (''d01'', ''u'', 3), (''d02'', ''u'', 4),
    (''d03'', ''u'', 5), (''d04'', ''u'', 6), (''d05'', ''u'', 7), (''d06'', ''u'', 8),
    (''d07'', ''u'', 9), (''d08'', ''u'', 10), (''d09'', ''u'', 11), (''d10'', ''u'', 12),
    (''d11'', ''u'', 13), (''d12'', ''u'', 14), (''d13'', ''u'', 15), (''d14'', ''u'', 16),
    (''d15'', ''u'', 17), (''d16'', ''u'', 18), (''d17'', ''u'', 19), (''d18'', ''u'', 20),
    (''d19'', ''u'', 21), (''d20'', ''u'', 22), (''d21'', ''u'', 23), (''d22'', ''u'', 24),
    (''d23'', ''u'', 25), (''d24'', ''u'', 26), (''d25'', ''u'', 27), (''d26'', ''u'', 28),
    (''d27'', ''u'', 29), (''d28'', ''u'', 30), (''d29'', ''u'', 31), (''d30'', ''u'', 32),
    (''d31'', ''u'', 33), (''d32'', ''u'', 34), (''d33'', ''u'', 35), (''d34'', ''u'', 36),
    (''d35'', ''u'', 37), (''d36'', ''u'', 38), (''d37'', ''u'', 39), (''d38'', ''u'', 40),
    (''d39'', ''u'', 41), (''d40'', ''u'', 42), (''d41'', ''u'', 43), (''d42'', ''u'', 44),
    (''d43'', ''u'', 45), (''d44'', ''u'', 46), (''d45'', ''u'', 47), (''d46'', ''u'', 48),
    (''d47'', ''u'', 49), (''d48'', ''u'', 50)]"


section \<open>Index arithmetic\<close>

lemma js_rem_nonneg: "0 \<le> a \<Longrightarrow> 0 < n \<Longrightarrow> js_rem a n = Num (a mod n)"
  by (cases "a = 0") (simp_all add: js_rem_def)

lemma js_rem_succ: "0 \<le> i \<Longrightarrow> 0 < n \<Longrightarrow> js_rem (i + 1) n = Num ((i + 1) mod n)"
  by (rule js_rem_nonneg) simp_all

lemma mod_step: "((a::int) mod n + 1) mod n = (a + 1) mod n"
  by (rule mod_add_left_eq)

lemma handleMediaEnd_playlist: "playlist (handleMediaEnd st) = playlist st"
  by (simp add: handleMediaEnd_def)

lemma handleMediaEnd_index:
  assumes "currentIndex st = Num i" "0 \<le> i" "playlist st \<noteq> []"
  shows "currentIndex (handleMediaEnd st) = Num ((i + 1) mod int (length (playlist st)))"
  using assms by (simp add: handleMediaEnd_def js_rem_succ)

lemma handleMediaEnd_funpow_playlist: "playlist ((handleMediaEnd ^^ k) st) = playlist st"
  by (induction k) (simp_all add: handleMediaEnd_playlist)

lemma handleMediaEnd_funpow_index:
  assumes "currentIndex st = Num i" "0 \<le> i" "i < int (length (playlist st))"
  shows "currentIndex ((handleMediaEnd ^^ k) st) = Num ((i + int k) mod int (length (playlist st)))"
proof (induction k)
  case 0
  show ?case using assms by simp
next
  case (Suc k)
  have ne: "playlist st \<noteq> []" using assms by auto
  have pl: "playlist ((handleMediaEnd ^^ k) st) \<noteq> []"
    using ne by (simp add: handleMediaEnd_funpow_playlist)
  have nn: "0 \<le> (i + int k) mod int (length (playlist st))" using ne by simp
  have "currentIndex (handleMediaEnd ((handleMediaEnd ^^ k) st))
        = Num (((i + int k) mod int (length (playlist st)) + 1) mod int (length (playlist st)))"
    using handleMediaEnd_index[OF Suc.IH nn pl] by (simp add: handleMediaEnd_funpow_playlist)
  also have "\<dots> = Num ((i + int k + 1) mod int (length (playlist st)))"
    by (simp only: mod_step)
  also have "i + int k + 1 = i + int (Suc k)" by simp
  finally show ?case by simp
qed

lemma goToNext_index:
  assumes "tv_currentIndex tv = Num j" "0 \<le> j" "content \<noteq> []"
  shows "tv_currentIndex (goToNext content tv) = Num ((j + 1) mod int (length content))"
  using assms by (simp add: goToNext_def js_rem_succ)

lemma goToNext_funpow_index:
  assumes "tv_currentIndex tv = Num j" "0 \<le> j" "j < int (length content)"
  shows "tv_currentIndex ((goToNext content ^^ k) tv) = Num ((j + int k) mod int (length content))"
proof (induction k)
  case 0
  show ?case using assms by simp
next
  case (Suc k)
  have ne: "content \<noteq> []" using assms by auto
  have nn: "0 \<le> (j + int k) mod int (length content)" using ne by simp
  have "tv_currentIndex (goToNext content ((goToNext content ^^ k) tv))
        = Num (((j + int k) mod int (length content) + 1) mod int (length content))"
    using goToNext_index[OF Suc.IH nn ne] .
  also have "\<dots> = Num ((j + int k + 1) mod int (length content))"
    by (simp only: mod_step)
  also have "j + int k + 1 = j + int (Suc k)" by simp
  finally show ?case by simp
qed

lemma goToPrevious_index:
  assumes "tv_currentIndex tv = Num j" "0 \<le> j" "j < int (length content)"
  shows "tv_currentIndex (goToPrevious content tv) = Num ((j - 1 + int (length content)) mod int (length content))"
proof -
  have ne: "content \<noteq> []" using assms by auto
  have "0 \<le> j - 1 + int (length content)" using assms ne by (cases content) auto
  then have "js_rem (j - 1 + int (length content)) (int (length content))
             = Num ((j - 1 + int (length content)) mod int (length content))"
    using ne by (intro js_rem_nonneg) simp_all
  then show ?thesis using assms ne by (simp add: goToPrevious_def)
qed



section \<open>Advancing through the playlist\<close>

text \<open>
  Claim C1 fails where two videos follow each other. The image timer advances the cursor
  by one (the image of scenario A, armed with 5000 milliseconds, hands over to index 1),
  and so does the \<open>ended\<close> event of the first video of a playlist of three videos. The
  second video is loaded into the same \<open>video\<close> element, which by then carries two
  \<open>ended\<close> listeners; its single \<open>ended\<close> event runs the index update twice and moves the
  cursor from 1 to 0, where the claim has \<open>(1 + 1) mod 3 = 2\<close>. Index 2 is skipped.
\<close>

theorem second_ended_skips_an_item:
  "imageTimer at_image = Some 5000
   \<and> currentIndex (component (mp_step player_props (Some ''tok'') (mounted at_image)
                                 ImageTimerFired)) = Num 1
   \<and> playlist (component three_videos) = [video_0, video_1, video_2]
   \<and> currentIndex (component three_videos) = Num 0
   \<and> videoListeners first_video_loaded = [3]
   \<and> currentIndex (component first_video_ended) = Num 1
   \<and> render player_props (component second_video_loaded)
       = VideoElement (DirectUrl ''http://h/v1.mp4'')
   \<and> videoListeners second_video_loaded = [3, 3]
   \<and> currentIndex (component second_video_ended) = Num 0"
  by (simp add: second_video_ended_def second_video_loaded_def first_video_ended_def
      first_video_loaded_def three_videos_def mounted_def mp_step_def settle_def
      media_effect_def refusing_env_def loadCurrentMedia_def preloadMedia_def isCached_def
      find_entry_def empty_storage_def run_listeners_def handleMediaEnd_def imageTimer_def
      render_def player_props_def at_image_def initial_state_def item_a_def item_b_def
      video_0_def video_1_def video_2_def js_rem_def Let_def)

section \<open>Videos and the image timer\<close>

lemma settle_component: "component (settle props d) = component d"
  by (simp add: settle_def)

lemma no_command_listener: "OnCommand \<notin> set (initWebSocket token)"
  by (simp add: initWebSocket_def socket_io_property_def)

lemma tv_socket_never_registers:
  "tv_socket_effect token dev = Registered ls \<Longrightarrow> OnCommand \<notin> set ls"
  by (auto simp: tv_socket_effect_def socket_io_property_def split: if_splits)

lemma video_item_no_img_view:
  assumes "js_index (playlist st) (currentIndex st) = Some item" "item_type item = ''video''"
  shows "\<not> is_img_view (render props st)"
  using assms by (simp add: render_def)

lemma video_item_no_timer:
  assumes "js_index (playlist st) (currentIndex st) = Some item" "item_type item = ''video''"
  shows "imageTimer st = None"
  using assms by (simp add: imageTimer_def split: option.splits)

lemma single_listener_advances:
  assumes "is_video_view (render props (component d))"
      and "videoListeners d = [int (length (playlist (component d)))]"
      and "currentIndex (component d) = Num i" and "0 \<le> i"
      and "playlist (component d) \<noteq> []"
      and "ev = VideoEnded \<or> ev = VideoError"
  shows "currentIndex (component (mp_step props token d ev))
         = Num ((i + 1) mod int (length (playlist (component d))))"
  using assms
  by (auto simp: mp_step_def settle_component run_listeners_def js_rem_succ)

lemma first_ended_value:
  "js_index (playlist (component first_video_loaded))
            (currentIndex (component first_video_loaded)) = Some video_0
   \<and> is_video_view (render player_props (component first_video_loaded))
   \<and> videoListeners first_video_loaded
       = [int (length (playlist (component first_video_loaded)))]
   \<and> currentIndex (component first_video_loaded) = Num 0
   \<and> int (length (playlist (component first_video_loaded))) = 3"
  by (simp add: first_video_loaded_def three_videos_def mounted_def mp_step_def settle_def
      render_def player_props_def initial_state_def video_0_def)

text \<open>
  Claim C4. While the current item is a video, whatever its \<open>duration_seconds\<close>, the image
  timer effect arms no timer and a timer event leaves the cursor where it is; of all the
  events of the player only \<open>ended\<close> and \<open>error\<close> of the video element move the cursor away
  from the video, and with one listener on the element each of them moves it to the next
  index. A command emitted by the server moves nothing, because the \<open>command\<close> listener is
  never registered.
\<close>

theorem video_left_only_by_ended_or_error:
  assumes "js_index (playlist (component d)) (currentIndex (component d)) = Some item"
      and "item_type item = ''video''"
  shows "imageTimer (component d) = None
       \<and> currentIndex (component (mp_step props token d ImageTimerFired))
           = currentIndex (component d)
       \<and> (\<forall>ev. currentIndex (component (mp_step props token d ev))
                  \<noteq> currentIndex (component d) \<longrightarrow>
              ev = VideoEnded \<or> ev = VideoError)
       \<and> (\<forall>ev i. is_video_view (render props (component d))
                  \<and> videoListeners d = [int (length (playlist (component d)))]
                  \<and> currentIndex (component d) = Num i \<and> 0 \<le> i
                  \<and> (ev = VideoEnded \<or> ev = VideoError) \<longrightarrow>
              currentIndex (component (mp_step props token d ev))
                = Num ((i + 1) mod int (length (playlist (component d)))))"
proof -
  have t: "imageTimer (component d) = None" using video_item_no_timer[OF assms] .
  have i: "\<not> is_img_view (render props (component d))"
    using video_item_no_img_view[OF assms] .
  have ne: "playlist (component d) \<noteq> []"
    using assms(1) by (cases "currentIndex (component d)") (auto split: if_splits)
  have ev: "currentIndex (component (mp_step props token d ev))
                  \<noteq> currentIndex (component d) \<longrightarrow>
              ev = VideoEnded \<or> ev = VideoError" for ev
  proof (cases ev)
    case ImageTimerFired
    then show ?thesis using t by (simp add: mp_step_def settle_component)
  next
    case VideoLoadedData
    then show ?thesis by (simp add: mp_step_def settle_component)
  next
    case VideoEnded
    then show ?thesis by simp
  next
    case VideoError
    then show ?thesis by simp
  next
    case ImageError
    then show ?thesis using i by (simp add: mp_step_def settle_component)
  next
    case (RemoteCommand ctype)
    then show ?thesis
      using no_command_listener[of token] by (simp add: mp_step_def settle_component)
  qed
  have tm: "currentIndex (component (mp_step props token d ImageTimerFired))
           = currentIndex (component d)"
    using t by (simp add: mp_step_def settle_component)
  have adv: "\<forall>ev i. is_video_view (render props (component d))
                  \<and> videoListeners d = [int (length (playlist (component d)))]
                  \<and> currentIndex (component d) = Num i \<and> 0 \<le> i
                  \<and> (ev = VideoEnded \<or> ev = VideoError) \<longrightarrow>
              currentIndex (component (mp_step props token d ev))
                = Num ((i + 1) mod int (length (playlist (component d))))"
    using single_listener_advances[where d = d and props = props and token = token] ne
    by blast
  show ?thesis using t tm ev adv by (intro conjI) blast+
qed

theorem video_left_only_by_ended_or_error_witness:
  "js_index (playlist (component first_video_loaded))
            (currentIndex (component first_video_loaded)) = Some video_0
   \<and> item_type video_0 = ''video''
   \<and> duration_seconds video_0 = Some 30
   \<and> imageTimer (component first_video_loaded) = None
   \<and> currentIndex (component first_video_loaded) = Num 0
   \<and> currentIndex (component (mp_step player_props (Some ''tok'') first_video_loaded
                                 ImageTimerFired)) = Num 0
   \<and> currentIndex (component (mp_step player_props (Some ''tok'') first_video_loaded
                                 (RemoteCommand ''next''))) = Num 0
   \<and> currentIndex (component (mp_step player_props (Some ''tok'') first_video_loaded
                                 VideoEnded)) = Num 1"
proof -
  have h1: "js_index (playlist (component first_video_loaded))
            (currentIndex (component first_video_loaded)) = Some video_0"
    using first_ended_value by blast
  have h2: "item_type video_0 = ''video''" by (simp add: video_0_def)
  have du: "duration_seconds video_0 = Some 30" by (simp add: video_0_def)
  have ix: "currentIndex (component first_video_loaded) = Num 0"
    using first_ended_value by blast
  have vv: "is_video_view (render player_props (component first_video_loaded))"
    using first_ended_value by blast
  have ls: "videoListeners first_video_loaded
            = [int (length (playlist (component first_video_loaded)))]"
    using first_ended_value by blast
  have ln: "int (length (playlist (component first_video_loaded))) = 3"
    using first_ended_value by blast
  note inst = video_left_only_by_ended_or_error[OF h1 h2, of player_props "Some ''tok''"]
  have tm: "imageTimer (component first_video_loaded) = None" using inst by blast
  have ti: "currentIndex (component (mp_step player_props (Some ''tok'') first_video_loaded
                                 ImageTimerFired)) = Num 0"
    using inst ix by simp
  have rc: "currentIndex (component (mp_step player_props (Some ''tok'') first_video_loaded
                                 (RemoteCommand ''next''))) = Num 0"
    using inst ix by force
  have "currentIndex (component (mp_step player_props (Some ''tok'') first_video_loaded
                                 VideoEnded))
        = Num ((0 + 1) mod int (length (playlist (component first_video_loaded))))"
    using inst vv ls ix by blast
  then have en: "currentIndex (component (mp_step player_props (Some ''tok'')
                                 first_video_loaded VideoEnded)) = Num 1"
    by (simp add: ln)
  show ?thesis using h1 h2 du tm ix ti rc en by (intro conjI)
qed

section \<open>Remote commands\<close>

lemma handleCommand_playlist: "playlist (handleCommand ctype st) = playlist st"
  by (simp add: handleCommand_def handleMediaEnd_def)

lemma handleCommand_in_range:
  assumes "currentIndex st = Num i" "0 \<le> i" "i < int (length (playlist st))"
  shows "\<exists>i'. currentIndex (handleCommand ctype st) = Num i' \<and> 0 \<le> i'
              \<and> i' < int (length (playlist st))"
proof -
  have ne: "playlist st \<noteq> []" using assms by auto
  show ?thesis
    using assms handleMediaEnd_index[OF assms(1,2) ne] ne
    by (auto simp: handleCommand_def)
qed

lemma handleCommand_other:
  assumes "ctype \<noteq> ''next''" "ctype \<noteq> ''restart''"
  shows "handleCommand ctype st = st"
  using assms by (simp add: handleCommand_def)

lemma handleCommands_in_range:
  assumes "currentIndex st = Num i" "0 \<le> i" "i < int (length (playlist st))"
  shows "\<exists>i'. currentIndex (foldl (\<lambda>s c. handleCommand c s) st cs) = Num i' \<and> 0 \<le> i'
              \<and> i' < int (length (playlist st))"
  using assms
proof (induction cs arbitrary: st i)
  case Nil
  then show ?case by simp
next
  case (Cons c cs)
  obtain i' where i': "currentIndex (handleCommand c st) = Num i'" "0 \<le> i'"
      "i' < int (length (playlist st))"
    using handleCommand_in_range[OF Cons.prems] by blast
  have "\<exists>k. currentIndex (foldl (\<lambda>s c. handleCommand c s) (handleCommand c st) cs) = Num k
            \<and> 0 \<le> k \<and> k < int (length (playlist (handleCommand c st)))"
    by (rule Cons.IH) (use i' in \<open>simp_all add: handleCommand_playlist\<close>)
  then show ?case by (simp add: handleCommand_playlist)
qed

lemma handleRemoteCommand_in_range:
  assumes "tv_currentIndex tv = Num j" "0 \<le> j" "j < int (length content)"
  shows "\<exists>j'. tv_currentIndex (handleRemoteCommand content ctype action tv) = Num j'
              \<and> 0 \<le> j' \<and> j' < int (length content)"
proof -
  have ne: "content \<noteq> []" using assms by auto
  show ?thesis
    using assms goToNext_index[OF assms(1,2) ne] goToPrevious_index[OF assms] ne
    by (auto simp: handleRemoteCommand_def tv_initial_def)
qed

lemma handleRemoteCommands_in_range:
  assumes "tv_currentIndex tv = Num j" "0 \<le> j" "j < int (length content)"
  shows "\<exists>j'. tv_currentIndex
               (foldl (\<lambda>s ca. handleRemoteCommand content (fst ca) (snd ca) s) tv cs) = Num j'
              \<and> 0 \<le> j' \<and> j' < int (length content)"
  using assms
proof (induction cs arbitrary: tv j)
  case Nil
  then show ?case by simp
next
  case (Cons ca cs)
  obtain j' where j': "tv_currentIndex (handleRemoteCommand content (fst ca) (snd ca) tv) = Num j'"
      "0 \<le> j'" "j' < int (length content)"
    using handleRemoteCommand_in_range[OF Cons.prems] by blast
  show ?case using Cons.IH[OF j'] by simp
qed

text \<open>
  Claim C10, as stated, fails for one handler: \<open>handleCommand\<close> of the player has no case
  for \<open>previous\<close>. Applied to a three-item playlist at index 1 it leaves the cursor at 1,
  where the claim has \<open>(1 - 1 + 3) mod 3 = 0\<close>.
\<close>

theorem previous_unhandled_counterexample:
  "playlist three_items_at_1 = [item_a, item_b, item_c]
   \<and> currentIndex three_items_at_1 = Num 1
   \<and> currentIndex (handleCommand ''previous'' three_items_at_1) = Num 1"
  by (simp add: three_items_at_1_def initial_state_def handleCommand_def)

text \<open>
  Claim C10, amended. As mappings of an in-range cursor of a non-empty playlist: in both
  handlers \<open>next\<close> yields \<open>(i + 1) mod n\<close> and \<open>restart\<close> yields 0; \<open>previous\<close> yields
  \<open>(i - 1 + n) mod n\<close>, from 0 to \<open>n - 1\<close>, in \<open>handleRemoteCommand\<close> of the display page,
  while \<open>handleCommand\<close> of the player leaves the cursor unchanged for \<open>previous\<close> as for
  every type other than \<open>next\<close> and \<open>restart\<close>; under any sequence of commands either
  handler keeps the cursor in \<open>[0, n)\<close>.
\<close>

theorem command_handlers_stay_in_range:
  assumes "currentIndex st = Num i" and "0 \<le> i" and "i < int (length (playlist st))"
      and "tv_currentIndex tv = Num j" and "0 \<le> j" and "j < int (length content)"
  shows "currentIndex (handleCommand ''next'' st) = Num ((i + 1) mod int (length (playlist st)))
       \<and> currentIndex (handleCommand ''restart'' st) = Num 0
       \<and> (\<forall>c. c \<noteq> ''next'' \<and> c \<noteq> ''restart'' \<longrightarrow> currentIndex (handleCommand c st) = Num i)
       \<and> tv_currentIndex (handleRemoteCommand content ''next'' action tv)
           = Num ((j + 1) mod int (length content))
       \<and> tv_currentIndex (handleRemoteCommand content ''previous'' action tv)
           = Num ((j - 1 + int (length content)) mod int (length content))
       \<and> (j = 0 \<longrightarrow> tv_currentIndex (handleRemoteCommand content ''previous'' action tv)
                      = Num (int (length content) - 1))
       \<and> tv_currentIndex (handleRemoteCommand content ''restart'' action tv) = Num 0
       \<and> (\<forall>cs. \<exists>i'. currentIndex (foldl (\<lambda>s c. handleCommand c s) st cs) = Num i'
                    \<and> 0 \<le> i' \<and> i' < int (length (playlist st)))
       \<and> (\<forall>cs. \<exists>j'. tv_currentIndex
                      (foldl (\<lambda>s ca. handleRemoteCommand content (fst ca) (snd ca) s) tv cs)
                        = Num j'
                    \<and> 0 \<le> j' \<and> j' < int (length content))"
proof -
  have ne: "playlist st \<noteq> []" and ne': "content \<noteq> []" using assms by auto
  have a: "currentIndex (handleCommand ''next'' st) = Num ((i + 1) mod int (length (playlist st)))"
    using handleMediaEnd_index[OF assms(1,2) ne] by (simp add: handleCommand_def)
  have b: "currentIndex (handleCommand ''restart'' st) = Num 0"
    by (simp add: handleCommand_def)
  have c: "\<forall>c. c \<noteq> ''next'' \<and> c \<noteq> ''restart'' \<longrightarrow> currentIndex (handleCommand c st) = Num i"
    using assms(1) by (simp add: handleCommand_other)
  have d: "tv_currentIndex (handleRemoteCommand content ''next'' action tv)
           = Num ((j + 1) mod int (length content))"
    using goToNext_index[OF assms(4,5) ne'] by (simp add: handleRemoteCommand_def)
  have e: "tv_currentIndex (handleRemoteCommand content ''previous'' action tv)
           = Num ((j - 1 + int (length content)) mod int (length content))"
    using goToPrevious_index[OF assms(4,5,6)] by (simp add: handleRemoteCommand_def)
  have f: "j = 0 \<longrightarrow> tv_currentIndex (handleRemoteCommand content ''previous'' action tv)
                      = Num (int (length content) - 1)"
    using e ne' by (cases content) auto
  have g: "tv_currentIndex (handleRemoteCommand content ''restart'' action tv) = Num 0"
    by (simp add: handleRemoteCommand_def)
  have h: "\<forall>cs. \<exists>i'. currentIndex (foldl (\<lambda>s c. handleCommand c s) st cs) = Num i'
                    \<and> 0 \<le> i' \<and> i' < int (length (playlist st))"
    using handleCommands_in_range[OF assms(1,2,3)] by blast
  have k: "\<forall>cs. \<exists>j'. tv_currentIndex
                      (foldl (\<lambda>s ca. handleRemoteCommand content (fst ca) (snd ca) s) tv cs)
                        = Num j'
                    \<and> 0 \<le> j' \<and> j' < int (length content)"
    using handleRemoteCommands_in_range[OF assms(4,5,6)] by blast
  show ?thesis using a b c d e f g h k by (intro conjI)
qed

theorem command_handlers_stay_in_range_witness:
  "currentIndex three_items_at_1 = Num 1 \<and> (1::int) < int (length (playlist three_items_at_1))
   \<and> currentIndex (handleCommand ''next'' three_items_at_1) = Num 2
   \<and> currentIndex (handleCommand ''restart'' three_items_at_1) = Num 0
   \<and> currentIndex (handleCommand ''previous'' three_items_at_1) = Num 1
   \<and> tv_currentIndex (handleRemoteCommand two_images ''previous'' None tv_initial) = Num 1
   \<and> tv_currentIndex (handleRemoteCommand two_images ''next'' None tv_initial) = Num 1"
proof -
  have h1: "currentIndex three_items_at_1 = Num 1"
    by (simp add: three_items_at_1_def)
  have h3: "1 < int (length (playlist three_items_at_1))"
    by (simp add: three_items_at_1_def initial_state_def)
  have t1: "tv_currentIndex tv_initial = Num 0" by (simp add: tv_initial_def)
  have t3: "0 < int (length two_images)" by (simp add: two_images_def)
  note inst = command_handlers_stay_in_range[OF h1 _ h3 t1 _ t3, of None]
  have l: "int (length (playlist three_items_at_1)) = 3"
    by (simp add: three_items_at_1_def initial_state_def)
  have m: "int (length two_images) = 2" by (simp add: two_images_def)
  show ?thesis using inst h1 h3 l m by simp
qed

section \<open>Loading the playlist\<close>

lemma loadPlaylist_catch_storage: "storage (loadPlaylist_catch st) = storage st"
  by (simp add: loadPlaylist_catch_def Let_def)

lemma loadPlaylist_catch_playlist:
  "getPlaylist (storage st) \<noteq> [] \<Longrightarrow> playlist (loadPlaylist_catch st) = getPlaylist (storage st)"
  by (simp add: loadPlaylist_catch_def Let_def)

lemma loadPlaylist_failed:
  assumes "fetch_failed e st"
  shows "\<exists>st'. loadPlaylist dev e st = loadPlaylist_catch st' \<and> storage st' = storage st"
proof (cases "truthy_str (device_token e)")
  case False
  then have "loadPlaylist dev e st = loadPlaylist_catch (st\<lparr>isLoading := True\<rparr>)"
    using assms by (cases "device_token e") (simp_all add: loadPlaylist_def fetch_failed_def Let_def)
  then show ?thesis by (intro exI[of _ "st\<lparr>isLoading := True\<rparr>"]) simp
next
  case True
  then obtain tok where tok: "device_token e = Some tok" "tok \<noteq> []"
    by (cases "device_token e") auto
  have fail: "manifest_reply e = ApiFailure" using assms True by (simp add: fetch_failed_def)
  have on: "isOnline st" using assms by (simp add: fetch_failed_def)
  have "loadPlaylist dev e st
        = loadPlaylist_catch (st\<lparr>isLoading := True, requests := requests st @ [GetManifest dev]\<rparr>)"
    using tok fail on by (simp add: loadPlaylist_def Let_def)
  then show ?thesis
    by (intro exI[of _ "st\<lparr>isLoading := True, requests := requests st @ [GetManifest dev]\<rparr>"]) simp
qed

text \<open>
  Claim C8. When the manifest fetch fails and a non-empty playlist is persisted, loading the
  playlist leaves the device storage as it was, so the persisted playlist is unchanged, and
  the player's playlist becomes the persisted one, which is not empty.
\<close>

theorem failed_fetch_keeps_cached_playlist:
  assumes "fetch_failed e st" and "getPlaylist (storage st) \<noteq> []"
  shows "storage (loadPlaylist dev e st) = storage st
       \<and> getPlaylist (storage (loadPlaylist dev e st)) = getPlaylist (storage st)
       \<and> playlist (loadPlaylist dev e st) = getPlaylist (storage st)
       \<and> playlist (loadPlaylist dev e st) \<noteq> []"
proof -
  obtain st' where st': "loadPlaylist dev e st = loadPlaylist_catch st'" "storage st' = storage st"
    using loadPlaylist_failed[OF assms(1)] by blast
  have s: "storage (loadPlaylist dev e st) = storage st"
    using st' by (simp add: loadPlaylist_catch_storage)
  have p: "playlist (loadPlaylist dev e st) = getPlaylist (storage st)"
    using st' assms(2) loadPlaylist_catch_playlist[of st'] by simp
  show ?thesis using s p assms(2) by simp
qed

theorem failed_fetch_keeps_cached_playlist_witness:
  "fetch_failed failing_env (initial_state True cached_storage)
   \<and> getPlaylist (storage (initial_state True cached_storage)) = [item_a, item_b]
   \<and> storage (loadPlaylist 7 failing_env (initial_state True cached_storage)) = cached_storage
   \<and> playlist (loadPlaylist 7 failing_env (initial_state True cached_storage)) = [item_a, item_b]"
proof -
  have h1: "fetch_failed failing_env (initial_state True cached_storage)"
    by (simp add: fetch_failed_def failing_env_def initial_state_def)
  have g: "getPlaylist (storage (initial_state True cached_storage)) = [item_a, item_b]"
    by (simp add: getPlaylist_def initial_state_def cached_storage_def)
  have h2: "getPlaylist (storage (initial_state True cached_storage)) \<noteq> []"
    using g by simp
  have s: "storage (initial_state True cached_storage) = cached_storage"
    by (simp add: initial_state_def)
  show ?thesis
    using failed_fetch_keeps_cached_playlist[OF h1 h2, of 7] h1 g s by simp
qed

section \<open>The blocked device\<close>

lemma initializeDevice_keeps_block:
  "app_isBlocked app \<Longrightarrow> app_isBlocked (initializeDevice reply app)"
  by (cases reply)
     (simp_all add: initializeDevice_def Let_def split: option.splits)

lemma initializeDevice_blocks_on_403:
  assumes "app_isBlocked (initializeDevice reply app)" and "\<not> app_isBlocked app"
  shows "reply = HttpError (Some 403)"
  using assms
  by (cases reply)
     (auto simp: initializeDevice_def Let_def split: option.splits if_splits)

lemma loadPlaylist_requests:
  assumes "isOnline st" "truthy_str (device_token e)"
  shows "GetManifest dev \<in> set (requests (loadPlaylist dev e st))"
proof -
  obtain tok where tok: "device_token e = Some tok" "tok \<noteq> []"
    using assms(2) by (cases "device_token e") auto
  show ?thesis
    using assms(1) tok
    by (cases "manifest_reply e") (simp_all add: loadPlaylist_def loadPlaylist_catch_def Let_def)
qed

text \<open>
  Claim C5, as stated, fails: a blocked player does fetch. A device whose validating request
  is answered with status 403 is rendered as a player with \<open>isBlocked\<close> set; that player, on
  mounting while online with its token and a persisted playlist, requests the manifest and
  then downloads the media of the current and of the next item.
\<close>

theorem blocked_player_fetches_counterexample:
  "DeviceApp_render (initializeDevice (HttpError (Some 403)) (device_app_initial stored_identity))
     = Player blocked_props
   \<and> isBlocked blocked_props
   \<and> requests (MediaPlayer_mount digest_d2 0 blocked_props failing_env
                 (initial_state True cached_storage))
     = [GetManifest 7, FetchMedia ''http://h/a.png'', FetchMedia ''http://h/b.mp4'']"
  by (simp add: DeviceApp_render_def initializeDevice_def device_app_initial_def
      stored_identity_def blocked_props_def MediaPlayer_mount_def loadPlaylist_def
      loadPlaylist_catch_def failing_env_def initial_state_def cached_storage_def
      getPlaylist_def loadCurrentMedia_def preloadMedia_def isCached_def find_entry_def
      item_a_def item_b_def js_rem_def Let_def)

text \<open>
  Claim C5, amended. While \<open>isBlocked\<close> is set the player renders the blocked screen in every
  state, so no media element is rendered. Its effects do not read the flag: mounting does
  for a blocked player exactly what it does for an unblocked one, and the manifest is
  requested whenever the player is online and holds a token. Once set, the flag is reset
  neither by \<open>initializeDevice\<close> nor by \<open>handleOnboardingComplete\<close>.
\<close>

theorem blocked_player_renders_no_media:
  assumes "isBlocked props"
  shows "render props st = BlockedScreen
       \<and> \<not> is_video_view (render props st) \<and> \<not> is_img_view (render props st)
       \<and> MediaPlayer_mount dg now props e st
           = MediaPlayer_mount dg now (props\<lparr>isBlocked := False\<rparr>) e st
       \<and> (isOnline st \<and> truthy_str (device_token e) \<longrightarrow>
            GetManifest (deviceId props) \<in> set (requests (loadPlaylist (deviceId props) e st)))
       \<and> (app_isBlocked app \<longrightarrow>
            app_isBlocked (initializeDevice reply app)
            \<and> app_isBlocked (handleOnboardingComplete newDeviceId tok app))"
proof -
  have r: "render props st = BlockedScreen" using assms by (simp add: render_def)
  have f: "isOnline st \<and> truthy_str (device_token e) \<longrightarrow>
            GetManifest (deviceId props) \<in> set (requests (loadPlaylist (deviceId props) e st))"
    using loadPlaylist_requests[of st e "deviceId props"] by blast
  have m: "MediaPlayer_mount dg now props e st
           = MediaPlayer_mount dg now (props\<lparr>isBlocked := False\<rparr>) e st"
    by (simp add: MediaPlayer_mount_def)
  have k: "app_isBlocked app \<longrightarrow>
            app_isBlocked (initializeDevice reply app)
            \<and> app_isBlocked (handleOnboardingComplete newDeviceId tok app)"
    using initializeDevice_keeps_block[of app reply]
    by (simp add: handleOnboardingComplete_def)
  show ?thesis using r f m k by simp
qed

theorem blocked_player_renders_no_media_witness:
  "isBlocked blocked_props
   \<and> render blocked_props (initial_state True cached_storage) = BlockedScreen
   \<and> isOnline (initial_state True cached_storage) \<and> truthy_str (device_token failing_env)
   \<and> GetManifest 7 \<in> set (requests (loadPlaylist 7 failing_env (initial_state True cached_storage)))"
proof -
  have h: "isBlocked blocked_props" by (simp add: blocked_props_def)
  have o: "isOnline (initial_state True cached_storage)" by (simp add: initial_state_def)
  have t: "truthy_str (device_token failing_env)" by (simp add: failing_env_def)
  have d: "deviceId blocked_props = 7" by (simp add: blocked_props_def)
  show ?thesis
    using blocked_player_renders_no_media[OF h,
            where st = "initial_state True cached_storage" and e = failing_env] h o t d
    by simp
qed

section \<open>Normalising the manifest\<close>

lemma manifest_entry_not_ok: "\<not> manifest_item_ok (Some (manifest_entry baseUrl r))"
  by (simp add: manifest_entry_def)

lemma server_manifest_all_dropped: "transformedPlaylist (manifest_response baseUrl q) = []"
  by (cases q)
     (simp_all add: transformedPlaylist_def manifest_response_def getDeviceManifest_def
        filter_empty_conv manifest_entry_def)

lemma transformedPlaylist_keeps_client_shape:
  "transformedPlaylist raw = map (\<lambda>x. to_playlist_item (the x)) (filter manifest_item_ok raw)
   \<and> length (transformedPlaylist raw) \<le> length raw"
  by (simp add: transformedPlaylist_def)

text \<open>
  Claim C2 fails on the manifest the server of this repository sends. The server names the
  content id \<open>id\<close>; the client's filter reads \<open>content_id\<close>, which no server item has. A
  well-formed row (content id 7, a file path) becomes a server item with an id and a URL,
  and the client drops it: the transformed playlist is empty, the player's playlist is
  empty, and the empty list replaces the playlist that was persisted.
\<close>

theorem server_item_dropped:
  "manifest_response ''http://localhost:3001'' (Some [row_7])
     = [Some \<lparr> raw_content_id = None, raw_id = Some 7, raw_playlist_id = Some 1,
               raw_type = ''image'', raw_url = Some ''http://localhost:3001/uploads/a.png'',
               raw_duration_seconds = Some 10, raw_checksum = Some ''d1'' \<rparr>]
   \<and> transformedPlaylist (manifest_response ''http://localhost:3001'' (Some [row_7])) = []
   \<and> playlist (loadPlaylist 7
         (failing_env\<lparr>manifest_reply :=
            ApiSuccess (Some (manifest_response ''http://localhost:3001'' (Some [row_7])))\<rparr>)
         (initial_state True cached_storage)) = []
   \<and> getPlaylist (storage (loadPlaylist 7
         (failing_env\<lparr>manifest_reply :=
            ApiSuccess (Some (manifest_response ''http://localhost:3001'' (Some [row_7])))\<rparr>)
         (initial_state True cached_storage))) = []"
  by (simp add: manifest_response_def getDeviceManifest_def manifest_entry_def row_7_def
      transformedPlaylist_def loadPlaylist_def failing_env_def initial_state_def
      savePlaylist_def getPlaylist_def Let_def)

section \<open>Image durations\<close>

text \<open>
  Claim C3, as stated, fails for a negative duration: neither player replaces it by the
  fallback. An image with a duration of \<open>-5\<close> gets an interval of \<open>-5000\<close> milliseconds on
  the display page and a timer of \<open>-5000\<close> milliseconds in the player, not \<open>10000\<close>.
\<close>

theorem negative_duration_counterexample:
  "js_index two_images (tv_currentIndex (tv_initial\<lparr>tv_currentIndex := Num 1\<rparr>))
     = Some \<lparr> content_id = ''y'', title = ''y'', file_path = ''y.png'', categoria = ''image'',
              content_type = ''image'', duration = Some (- 5) \<rparr>
   \<and> content_item_effect two_images (tv_initial\<lparr>tv_currentIndex := Num 1\<rparr>)
       = ImageInterval (- 5000)
   \<and> js_index (playlist (three_items_at_1\<lparr>currentIndex := Num 2\<rparr>)) (Num 2) = Some item_c
   \<and> item_type item_c = ''image'' \<and> duration_seconds item_c = Some (- 5)
   \<and> imageTimer (three_items_at_1\<lparr>currentIndex := Num 2\<rparr>) = Some (- 5000)"
  by (simp add: two_images_def tv_initial_def content_item_effect_def three_items_at_1_def
      initial_state_def item_c_def imageTimer_def)

text \<open>
  Claim C3, amended. For an image whose duration is missing or zero the display page arms
  its interval with the fallback of ten seconds, and the server's manifest gives an image
  whose playlist duration is missing or zero a duration of ten seconds. A duration \<open>d\<close>
  other than zero, negative or not, is used as it is: the display page and the player arm
  their timer with \<open>d * 1000\<close> milliseconds and the server passes \<open>d\<close> on.
\<close>

theorem image_duration_fallback:
  assumes "js_index content (tv_currentIndex tv) = Some c"
      and "categoria c \<noteq> ''video''" and "content_type c \<noteq> ''video''"
      and "row_type r = ''image''"
      and "js_index (playlist st) (currentIndex st) = Some item"
      and "item_type item = ''image''"
  shows "(duration c = None \<or> duration c = Some 0 \<longrightarrow>
            content_item_effect content tv = ImageInterval 10000)
       \<and> (\<forall>d. duration c = Some d \<and> d \<noteq> 0 \<longrightarrow>
            content_item_effect content tv = ImageInterval (d * 1000))
       \<and> (row_playlist_duration r = None \<or> row_playlist_duration r = Some 0 \<longrightarrow>
            raw_duration_seconds (manifest_entry baseUrl r) = Some 10)
       \<and> (\<forall>d. row_playlist_duration r = Some d \<and> d \<noteq> 0 \<longrightarrow>
            raw_duration_seconds (manifest_entry baseUrl r) = Some d)
       \<and> (\<forall>d. duration_seconds item = Some d \<and> d \<noteq> 0 \<longrightarrow> imageTimer st = Some (d * 1000))"
proof -
  have ne: "content \<noteq> []" using assms(1) by (cases "tv_currentIndex tv") (auto split: if_splits)
  have a: "duration c = None \<or> duration c = Some 0 \<longrightarrow>
            content_item_effect content tv = ImageInterval 10000"
    using assms(1,2,3) ne by (auto simp: content_item_effect_def)
  have b: "\<forall>d. duration c = Some d \<and> d \<noteq> 0 \<longrightarrow>
            content_item_effect content tv = ImageInterval (d * 1000)"
    using assms(1,2,3) ne by (auto simp: content_item_effect_def)
  have c: "row_playlist_duration r = None \<or> row_playlist_duration r = Some 0 \<longrightarrow>
            raw_duration_seconds (manifest_entry baseUrl r) = Some 10"
    using assms(4) by (auto simp: manifest_entry_def)
  have d: "\<forall>d. row_playlist_duration r = Some d \<and> d \<noteq> 0 \<longrightarrow>
            raw_duration_seconds (manifest_entry baseUrl r) = Some d"
    using assms(4) by (auto simp: manifest_entry_def)
  have e: "\<forall>d. duration_seconds item = Some d \<and> d \<noteq> 0 \<longrightarrow> imageTimer st = Some (d * 1000)"
    using assms(5,6) by (auto simp: imageTimer_def)
  show ?thesis using a b c d e by (intro conjI)
qed

theorem image_duration_fallback_witness:
  "content_item_effect two_images tv_initial = ImageInterval 10000
   \<and> raw_duration_seconds (manifest_entry ''http://localhost:3001'' row_7) = Some 10
   \<and> imageTimer at_image = Some 5000"
proof -
  have h1: "js_index two_images (tv_currentIndex tv_initial)
            = Some \<lparr> content_id = ''x'', title = ''x'', file_path = ''x.png'',
                     categoria = ''image'', content_type = ''image'', duration = None \<rparr>"
    by (simp add: two_images_def tv_initial_def)
  have h4: "row_type row_7 = ''image''" by (simp add: row_7_def)
  have h5: "js_index (playlist at_image) (currentIndex at_image) = Some item_a"
    by (simp add: at_image_def initial_state_def)
  have h6: "item_type item_a = ''image''" by (simp add: item_a_def)
  have r: "row_playlist_duration row_7 = None" by (simp add: row_7_def)
  have i: "duration_seconds item_a = Some 5" by (simp add: item_a_def)
  show ?thesis
    using image_duration_fallback[OF h1 _ _ h4 h5 h6, of "''http://localhost:3001''"] r i
    by simp
qed

section \<open>The auto-advance interval and its random draw\<close>

text \<open>
  Claim C9, as stated, fails: a step of the display page depends on a random draw. From the
  initial state, with the same two images and the same announcement, a tick whose draw is
  \<open>0\<close> switches to the announcement, and the render of that state throws; a tick whose
  draw is \<open>1/2\<close> advances to the second image, which the page shows.
\<close>

theorem random_draw_counterexample:
  "auto_advance_tick two_images one_announcement 0 tv_initial
     = tv_initial\<lparr>showingAnnouncement := True\<rparr>
   \<and> displayContent two_images one_announcement
        (auto_advance_tick two_images one_announcement 0 tv_initial) = RenderThrows
   \<and> auto_advance_tick two_images one_announcement (1/2) tv_initial
     = tv_initial\<lparr>tv_currentIndex := Num 1\<rparr>
   \<and> displayContent two_images one_announcement
        (auto_advance_tick two_images one_announcement (1/2) tv_initial)
     = ShowContent \<lparr> content_id = ''y'', title = ''y'', file_path = ''y.png'',
                     categoria = ''image'', content_type = ''image'', duration = Some (- 5) \<rparr>"
  by (simp add: displayContent_def auto_advance_tick_def two_images_def one_announcement_def
      tv_initial_def js_rem_def)

lemma tick_same_side:
  assumes "(ra < 0.3) = (rb < 0.3)"
  shows "auto_advance_tick content announcements ra st
         = auto_advance_tick content announcements rb st"
  using assms by (simp add: auto_advance_tick_def)

lemma tick_no_announcements:
  assumes "announcements = [] \<or> showingAnnouncement st"
  shows "auto_advance_tick content announcements ra st
         = auto_advance_tick content announcements rb st"
  using assms by (auto simp: auto_advance_tick_def)

lemma tick_shows_announcement:
  assumes "\<not> showingAnnouncement st" "announcements \<noteq> []" "rnd < 0.3"
  shows "auto_advance_tick content announcements rnd st
         = st\<lparr>showingAnnouncement := True, currentAnnouncementIndex := 0\<rparr>"
  using assms by (simp add: auto_advance_tick_def)

lemma tick_advances_content:
  assumes "\<not> showingAnnouncement st" "announcements = [] \<or> \<not> rnd < 0.3"
      and "tv_currentIndex st = Num i" "0 \<le> i" "i < int (length content)"
  shows "auto_advance_tick content announcements rnd st
         = st\<lparr>tv_currentIndex := Num ((i + 1) mod int (length content))\<rparr>"
proof -
  have ne: "content \<noteq> []" using assms by auto
  have "js_rem (i + 1) (int (length content)) = Num ((i + 1) mod int (length content))"
    using assms(4) ne by (intro js_rem_succ) simp_all
  then show ?thesis using assms ne by (auto simp: auto_advance_tick_def)
qed

lemma run_no_announcements:
  assumes "length draws = length draws'"
  shows "auto_advance_run content [] draws st = auto_advance_run content [] draws' st"
  using assms
proof (induction draws draws' arbitrary: st rule: list_induct2)
  case Nil
  show ?case by simp
next
  case (Cons ra rsa rb rsb)
  have "auto_advance_tick content [] ra st = auto_advance_tick content [] rb st"
    by (rule tick_no_announcements) simp
  then show ?case using Cons.IH by (simp add: Let_def)
qed

lemma tick_next_announcement:
  assumes "showingAnnouncement st" "announcements \<noteq> []"
      and "currentAnnouncementIndex st < int (length announcements) - 1"
  shows "auto_advance_tick content announcements rnd st
         = st\<lparr>currentAnnouncementIndex := currentAnnouncementIndex st + 1\<rparr>"
  using assms by (simp add: auto_advance_tick_def)

lemma tick_back_to_content:
  assumes "showingAnnouncement st"
      and "\<not> currentAnnouncementIndex st < int (length announcements) - 1"
      and "tv_currentIndex st = Num i" "0 \<le> i" "i < int (length content)"
  shows "auto_advance_tick content announcements rnd st
         = st\<lparr>showingAnnouncement := False, currentAnnouncementIndex := 0,
              tv_currentIndex := Num ((i + 1) mod int (length content))\<rparr>"
proof -
  have ne: "content \<noteq> []" using assms by auto
  have "js_rem (i + 1) (int (length content)) = Num ((i + 1) mod int (length content))"
    using assms(4) ne by (intro js_rem_succ) simp_all
  then show ?thesis using assms ne by (simp add: auto_advance_tick_def Let_def)
qed

text \<open>
  Claim C9, amended. A tick depends on one random draw. While content is showing and the
  announcement list is not empty, a draw below \<open>0.3\<close> switches to the first announcement and
  leaves the content index alone; while content is showing, any other draw, and every
  draw when the announcement list is empty, advances the content index to \<open>(i + 1) mod n\<close>.
  While an announcement is showing the tick moves to the next announcement, or after the
  last one back to content with the index advanced to \<open>(i + 1) mod n\<close>. The tick depends on
  the draw only through the comparison with \<open>0.3\<close>: two draws on the same side give the
  same state; with an empty announcement list, or while an announcement is showing, it
  does not depend on the draw, so without announcements any two runs of the same number of
  ticks pass through the same states.
\<close>

theorem advance_depends_on_draw_only_with_announcements:
  "(\<not> showingAnnouncement st \<and> announcements \<noteq> [] \<and> ra < 0.3 \<longrightarrow>
      auto_advance_tick content announcements ra st
        = st\<lparr>showingAnnouncement := True, currentAnnouncementIndex := 0\<rparr>)
   \<and> (\<not> showingAnnouncement st \<and> (announcements = [] \<or> \<not> ra < 0.3)
        \<and> tv_currentIndex st = Num i \<and> 0 \<le> i \<and> i < int (length content) \<longrightarrow>
      auto_advance_tick content announcements ra st
        = st\<lparr>tv_currentIndex := Num ((i + 1) mod int (length content))\<rparr>)
   \<and> (showingAnnouncement st \<and> announcements \<noteq> []
        \<and> currentAnnouncementIndex st < int (length announcements) - 1 \<longrightarrow>
      auto_advance_tick content announcements ra st
        = st\<lparr>currentAnnouncementIndex := currentAnnouncementIndex st + 1\<rparr>)
   \<and> (showingAnnouncement st
        \<and> \<not> currentAnnouncementIndex st < int (length announcements) - 1
        \<and> tv_currentIndex st = Num i \<and> 0 \<le> i \<and> i < int (length content) \<longrightarrow>
      auto_advance_tick content announcements ra st
        = st\<lparr>showingAnnouncement := False, currentAnnouncementIndex := 0,
             tv_currentIndex := Num ((i + 1) mod int (length content))\<rparr>)
   \<and> ((ra < 0.3) = (rb < 0.3) \<longrightarrow>
      auto_advance_tick content announcements ra st
        = auto_advance_tick content announcements rb st)
   \<and> (announcements = [] \<or> showingAnnouncement st \<longrightarrow>
      auto_advance_tick content announcements ra st
        = auto_advance_tick content announcements rb st)
   \<and> (length draws = length draws' \<longrightarrow>
      auto_advance_run content [] draws st = auto_advance_run content [] draws' st)"
  using tick_shows_announcement[of st announcements ra content]
        tick_advances_content[of st announcements ra i content]
        tick_next_announcement[of st announcements content ra]
        tick_back_to_content[of st announcements i content ra]
        tick_same_side[of ra rb content announcements st]
        tick_no_announcements[of announcements st content ra rb]
        run_no_announcements[of draws draws' content st]
  by blast

theorem advance_depends_on_draw_only_with_announcements_witness:
  "auto_advance_tick two_images one_announcement (1/8) tv_initial
       = tv_initial\<lparr>showingAnnouncement := True, currentAnnouncementIndex := 0\<rparr>
   \<and> auto_advance_tick two_images one_announcement (1/2) tv_initial
       = tv_initial\<lparr>tv_currentIndex := Num 1\<rparr>
   \<and> auto_advance_tick two_images one_announcement (1/8) tv_initial
       = auto_advance_tick two_images one_announcement (1/4) tv_initial
   \<and> auto_advance_tick two_images [] (1/8) tv_initial
       = auto_advance_tick two_images [] (1/2) tv_initial
   \<and> auto_advance_run two_images [] [1/8, 1/8] tv_initial
       = auto_advance_run two_images [] [1/2, 1/2] tv_initial
   \<and> map tv_currentIndex (auto_advance_run two_images [] [1/8, 1/8] tv_initial)
       = [Num 1, Num 0]"
proof -
  have s: "\<not> showingAnnouncement tv_initial" and ix: "tv_currentIndex tv_initial = Num 0"
    by (simp_all add: tv_initial_def)
  have a: "one_announcement \<noteq> []" by (simp add: one_announcement_def)
  have l: "int (length two_images) = 2" by (simp add: two_images_def)
  have v: "map tv_currentIndex (auto_advance_run two_images [] [1/8, 1/8] tv_initial)
           = [Num 1, Num 0]"
    by (simp add: auto_advance_tick_def displayContent_def two_images_def tv_initial_def
        js_rem_def Let_def)
  have i1: "auto_advance_tick two_images one_announcement (1/8) tv_initial
       = tv_initial\<lparr>showingAnnouncement := True, currentAnnouncementIndex := 0\<rparr>"
    using advance_depends_on_draw_only_with_announcements
            [where st = tv_initial and announcements = one_announcement and ra = "1/8"
               and i = 0 and content = two_images and rb = "1/4" and draws = "[]"
               and draws' = "[]"] s a
    by simp
  have i2: "auto_advance_tick two_images one_announcement (1/2) tv_initial
       = tv_initial\<lparr>tv_currentIndex := Num 1\<rparr>"
    using advance_depends_on_draw_only_with_announcements
            [where st = tv_initial and announcements = one_announcement and ra = "1/2"
               and i = 0 and content = two_images and rb = "1/2" and draws = "[]"
               and draws' = "[]"] s ix l
    by simp
  have i3: "auto_advance_tick two_images one_announcement (1/8) tv_initial
       = auto_advance_tick two_images one_announcement (1/4) tv_initial"
    using advance_depends_on_draw_only_with_announcements
            [where st = tv_initial and announcements = one_announcement and ra = "1/8"
               and i = 0 and content = two_images and rb = "1/4" and draws = "[]"
               and draws' = "[]"]
    by simp
  have i4: "auto_advance_tick two_images [] (1/8) tv_initial
       = auto_advance_tick two_images [] (1/2) tv_initial
       \<and> auto_advance_run two_images [] [1/8, 1/8] tv_initial
       = auto_advance_run two_images [] [1/2, 1/2] tv_initial"
    using advance_depends_on_draw_only_with_announcements
            [where st = tv_initial and announcements = "[]" and ra = "1/8"
               and i = 0 and content = two_images and rb = "1/2"
               and draws = "[1/8, 1/8]" and draws' = "[1/2, 1/2]"]
    by simp
  show ?thesis using i1 i2 i3 i4 v by simp
qed

section \<open>Digests in the media cache\<close>

lemma cacheMedia_mismatch:
  assumes "expectedDigest = Some d" "d \<noteq> dg blob"
  shows "cacheMedia dg now s cid blob expectedDigest = Inl IntegrityError"
  using assms by (simp add: cacheMedia_def Let_def)

lemma isCached_mismatch:
  assumes "find_entry s cid = Some e" "digest e \<noteq> d"
  shows "\<not> isCached s cid (Some d)"
  using assms by (simp add: isCached_def)

lemma isCached_missing:
  assumes "find_entry s cid = None"
  shows "\<not> isCached s cid x"
  using assms by (simp add: isCached_def)

lemma preloadMedia_miss_fetches:
  assumes "\<not> isCached (storage st) (url item) (checksum item)"
  shows "requests (snd (preloadMedia dg now e item st)) = requests st @ [FetchMedia (url item)]"
  using assms
  by (auto simp: preloadMedia_def Let_def split: option.splits sum.splits)

lemma preloadMedia_rejected_write:
  assumes "\<not> isCached (storage st) (url item) (checksum item)"
      and "checksum item = Some d" and "d \<noteq> []"
      and "media_reply e (url item) = Some blob" and "dg blob \<noteq> d"
  shows "preloadMedia dg now e item st
         = (DirectUrl (url item), st\<lparr>requests := requests st @ [FetchMedia (url item)]\<rparr>)"
  using assms by (simp add: preloadMedia_def Let_def cacheMedia_def)

lemma find_append_new:
  assumes "\<forall>x \<in> set xs. contentId x \<noteq> cid"
  shows "find (\<lambda>x. contentId x = cid) (xs @ [en]) = (if contentId en = cid then Some en else None)"
  using assms by (induction xs) simp_all

lemma evict_if_full_subset: "set (evict_if_full es) \<subseteq> set es"
  by (cases "oldest es") (simp_all add: evict_if_full_def)

lemma cacheMedia_accepted_value:
  assumes "expectedDigest = None \<or> expectedDigest = Some (dg blob)"
  shows "cacheMedia dg now s cid blob expectedDigest
         = Inr (s\<lparr>media := evict_if_full (filter (\<lambda>x. contentId x \<noteq> cid) (media s))
                              @ [\<lparr> contentId = cid, blobRef = blob, digest = dg blob,
                                    cachedAt = now \<rparr>]\<rparr>)"
proof (cases expectedDigest)
  case None
  then show ?thesis by (simp add: cacheMedia_def Let_def)
next
  case (Some x)
  then have "x = dg blob" using assms by simp
  then show ?thesis using Some by (simp add: cacheMedia_def Let_def)
qed


lemma cacheMedia_accepts:
  assumes "expectedDigest = None \<or> expectedDigest = Some (dg blob)"
  shows "\<exists>s'. cacheMedia dg now s cid blob expectedDigest = Inr s'
              \<and> find_entry s' cid
                  = Some \<lparr> contentId = cid, blobRef = blob, digest = dg blob, cachedAt = now \<rparr>"
proof -
  define others where "others = filter (\<lambda>x. contentId x \<noteq> cid) (media s)"
  define en where "en = \<lparr> contentId = cid, blobRef = blob, digest = dg blob, cachedAt = now \<rparr>"
  have v: "cacheMedia dg now s cid blob expectedDigest
           = Inr (s\<lparr>media := evict_if_full others @ [en]\<rparr>)"
    unfolding others_def en_def
    using assms by (rule cacheMedia_accepted_value[where dg = dg and blob = blob])
  have "\<forall>x \<in> set others. contentId x \<noteq> cid" by (simp add: others_def)
  then have nf: "\<forall>x \<in> set (evict_if_full others). contentId x \<noteq> cid"
    using evict_if_full_subset[of others] by blast
  have c: "contentId en = cid" by (simp add: en_def)
  have "find (\<lambda>x. contentId x = cid) (evict_if_full others @ [en]) = Some en"
    using find_append_new[OF nf, of en] c by simp
  then have f: "find_entry (s\<lparr>media := evict_if_full others @ [en]\<rparr>) cid = Some en"
    by (simp add: find_entry_def)
  show ?thesis using v f unfolding en_def by blast
qed

text \<open>
  Claim C6, against the device storage modelled from the specification. A write whose
  expected digest differs from the digest of the bytes is rejected with \<open>IntegrityError\<close>
  and returns no new store, while a write without an expected digest, or with the right
  one, stores the entry; \<open>isCached\<close> is false whenever the stored digest differs from the
  expected one. In \<open>preloadMedia\<close> of the player an item whose checksum differs from the
  cached digest is downloaded from the network; if the downloaded bytes do not match the
  checksum either, the storage is left as it was and the item's own URL is used.
\<close>

theorem digest_mismatch_rejected:
  "(expectedDigest = Some d \<and> d \<noteq> dg blob \<longrightarrow>
      cacheMedia dg now s cid blob expectedDigest = Inl IntegrityError)
   \<and> (expectedDigest = None \<or> expectedDigest = Some (dg blob) \<longrightarrow>
      (\<exists>s'. cacheMedia dg now s cid blob expectedDigest = Inr s'
            \<and> find_entry s' cid
                = Some \<lparr> contentId = cid, blobRef = blob, digest = dg blob, cachedAt = now \<rparr>))
   \<and> (find_entry s cid = Some en \<and> digest en \<noteq> d \<longrightarrow> \<not> isCached s cid (Some d))
   \<and> (find_entry (storage st) (url item) = Some en \<and> checksum item = Some d \<and> digest en \<noteq> d \<longrightarrow>
        requests (snd (preloadMedia dg now e item st)) = requests st @ [FetchMedia (url item)]
        \<and> (d \<noteq> [] \<and> media_reply e (url item) = Some blob \<and> dg blob \<noteq> d \<longrightarrow>
             fst (preloadMedia dg now e item st) = DirectUrl (url item)
             \<and> storage (snd (preloadMedia dg now e item st)) = storage st))"
proof -
  have a: "expectedDigest = Some d \<and> d \<noteq> dg blob \<longrightarrow>
      cacheMedia dg now s cid blob expectedDigest = Inl IntegrityError"
    using cacheMedia_mismatch[of expectedDigest d dg blob now s cid] by blast
  have b: "expectedDigest = None \<or> expectedDigest = Some (dg blob) \<longrightarrow>
      (\<exists>s'. cacheMedia dg now s cid blob expectedDigest = Inr s'
            \<and> find_entry s' cid
                = Some \<lparr> contentId = cid, blobRef = blob, digest = dg blob, cachedAt = now \<rparr>)"
    using cacheMedia_accepts[of expectedDigest dg blob now s cid] by blast
  have c: "find_entry s cid = Some en \<and> digest en \<noteq> d \<longrightarrow> \<not> isCached s cid (Some d)"
    using isCached_mismatch[of s cid en d] by blast
  have d: "find_entry (storage st) (url item) = Some en \<and> checksum item = Some d \<and> digest en \<noteq> d \<longrightarrow>
        requests (snd (preloadMedia dg now e item st)) = requests st @ [FetchMedia (url item)]
        \<and> (d \<noteq> [] \<and> media_reply e (url item) = Some blob \<and> dg blob \<noteq> d \<longrightarrow>
             fst (preloadMedia dg now e item st) = DirectUrl (url item)
             \<and> storage (snd (preloadMedia dg now e item st)) = storage st)"
  proof (intro impI)
    assume h: "find_entry (storage st) (url item) = Some en \<and> checksum item = Some d \<and> digest en \<noteq> d"
    then have miss: "\<not> isCached (storage st) (url item) (checksum item)"
      using isCached_mismatch[of "storage st" "url item" en d] by simp
    have r: "requests (snd (preloadMedia dg now e item st)) = requests st @ [FetchMedia (url item)]"
      using preloadMedia_miss_fetches[OF miss] .
    have w: "d \<noteq> [] \<and> media_reply e (url item) = Some blob \<and> dg blob \<noteq> d \<longrightarrow>
             fst (preloadMedia dg now e item st) = DirectUrl (url item)
             \<and> storage (snd (preloadMedia dg now e item st)) = storage st"
      using preloadMedia_rejected_write[OF miss, of d e blob dg now] h by simp
    show "requests (snd (preloadMedia dg now e item st)) = requests st @ [FetchMedia (url item)]
        \<and> (d \<noteq> [] \<and> media_reply e (url item) = Some blob \<and> dg blob \<noteq> d \<longrightarrow>
             fst (preloadMedia dg now e item st) = DirectUrl (url item)
             \<and> storage (snd (preloadMedia dg now e item st)) = storage st)"
      using r w by blast
  qed
  show ?thesis using a b c d by (intro conjI)
qed

theorem digest_mismatch_rejected_witness:
  "find_entry stale_media ''http://h/c.png''
     = Some \<lparr> contentId = ''http://h/c.png'', blobRef = [1, 2, 3], digest = ''d1'', cachedAt = 0 \<rparr>
   \<and> checksum item_c = Some ''d2''
   \<and> \<not> isCached stale_media ''http://h/c.png'' (Some ''d2'')
   \<and> cacheMedia digest_d3 9 stale_media ''http://h/c.png'' [4, 5, 6] (Some ''d2'')
       = Inl IntegrityError
   \<and> requests (snd (preloadMedia digest_d3 9 serving_env item_c (initial_state True stale_media)))
       = [FetchMedia ''http://h/c.png'']
   \<and> fst (preloadMedia digest_d3 9 serving_env item_c (initial_state True stale_media))
       = DirectUrl ''http://h/c.png''
   \<and> storage (snd (preloadMedia digest_d3 9 serving_env item_c (initial_state True stale_media)))
       = stale_media"
proof -
  let ?en = "\<lparr> contentId = ''http://h/c.png'', blobRef = [1, 2, 3], digest = ''d1'', cachedAt = 0 \<rparr>"
  have f: "find_entry stale_media ''http://h/c.png'' = Some ?en"
    by (simp add: find_entry_def stale_media_def)
  have u: "url item_c = ''http://h/c.png''" and c: "checksum item_c = Some ''d2''"
    by (simp_all add: item_c_def)
  have s: "storage (initial_state True stale_media) = stale_media"
    and r: "requests (initial_state True stale_media) = []"
    by (simp_all add: initial_state_def)
  have m: "media_reply serving_env ''http://h/c.png'' = Some [4, 5, 6]"
    by (simp add: serving_env_def)
  have g: "digest_d3 [4, 5, 6] = ''d3''" by (simp add: digest_d3_def)
  show ?thesis
    using digest_mismatch_rejected
            [where expectedDigest = "Some ''d2''" and d = "''d2''" and dg = digest_d3
               and blob = "[4, 5, 6]" and now = 9 and s = stale_media
               and cid = "''http://h/c.png''" and en = ?en
               and st = "initial_state True stale_media" and item = item_c
               and e = serving_env]
          f u c s r m g
    by simp
qed

section \<open>Eviction in the video cache\<close>

lemma map_set_length: "length (map_set m k v) \<le> Suc (length m)"
  by (simp add: map_set_def)

lemma map_set_subset: "set (map_set m k v) \<subseteq> insert (k, v) (set m)"
  by (auto simp: map_set_def)

lemma map_delete_subset: "set (map_delete m k) \<subseteq> set m"
  by (auto simp: map_delete_def)

lemma map_delete_first:
  assumes "first_key m = Some k"
  shows "length (map_delete m k) < length m"
proof (cases m)
  case Nil
  then show ?thesis using assms by (simp add: first_key_def)
next
  case (Cons p ps)
  then have "fst p = k" using assms by (simp add: first_key_def)
  then have "map_delete m k = filter (\<lambda>q. fst q \<noteq> k) ps"
    using Cons by (simp add: map_delete_def)
  then show ?thesis using Cons by (simp add: less_Suc_eq_le)
qed

lemma cacheVideo_bounded:
  assumes "length cache \<le> MAX_CACHE_SIZE" and "\<forall>p \<in> set cache. fst p \<noteq> []"
  shows "length (cacheVideo now cache vid vurl md) \<le> MAX_CACHE_SIZE"
proof (cases "length cache \<ge> MAX_CACHE_SIZE")
  case False
  then have "cacheVideo now cache vid vurl md
             = map_set cache vid \<lparr> cv_id = vid, cv_url = vurl, cv_cachedAt = now, cv_metadata = md \<rparr>"
    by (simp add: cacheVideo_def Let_def)
  then show ?thesis
    using False map_set_length[of cache vid] by (metis Suc_leI le_trans not_le)
next
  case True
  then have "cache \<noteq> []" by (auto simp: MAX_CACHE_SIZE_def)
  then obtain p ps where c: "cache = p # ps" by (cases cache) auto
  then have fk: "first_key cache = Some (fst p)" by (simp add: first_key_def)
  have ne: "fst p \<noteq> []" using assms(2) c by simp
  have "cacheVideo now cache vid vurl md
        = map_set (map_delete cache (fst p)) vid
            \<lparr> cv_id = vid, cv_url = vurl, cv_cachedAt = now, cv_metadata = md \<rparr>"
    using True fk ne by (simp add: cacheVideo_def Let_def)
  moreover have "length (map_delete cache (fst p)) < length cache"
    using map_delete_first[OF fk] .
  ultimately show ?thesis
    using assms(1) map_set_length[of "map_delete cache (fst p)" vid]
    by (metis Suc_leI le_trans)
qed

lemma cacheVideo_subset:
  "set (cacheVideo now cache vid vurl md)
     \<subseteq> insert (vid, \<lparr> cv_id = vid, cv_url = vurl, cv_cachedAt = now, cv_metadata = md \<rparr>)
          (set cache)"
proof -
  have "set (map_set c vid v) \<subseteq> insert (vid, v) (set cache)" if "set c \<subseteq> set cache" for c v
    using that map_set_subset[of c vid v] by blast
  then show ?thesis
    using map_delete_subset[of cache] by (simp add: cacheVideo_def Let_def)
qed

lemma cacheVideo_keys_nonempty:
  assumes "\<forall>p \<in> set cache. fst p \<noteq> []" and "vid \<noteq> []"
  shows "\<forall>p \<in> set (cacheVideo now cache vid vurl md). fst p \<noteq> []"
  using assms cacheVideo_subset[of now cache vid vurl md] by auto

lemma cacheVideos_bounded:
  assumes "length cache \<le> MAX_CACHE_SIZE" and "\<forall>p \<in> set cache. fst p \<noteq> []"
      and "\<forall>x \<in> set ins. fst x \<noteq> []"
  shows "length (cacheVideos cache ins) \<le> MAX_CACHE_SIZE"
  using assms
proof (induction ins arbitrary: cache)
  case Nil
  then show ?case by simp
next
  case (Cons x xs)
  obtain vid vurl now where x: "x = (vid, vurl, now)" by (cases x) auto
  have v: "vid \<noteq> []" using Cons.prems(3) x by simp
  have "length (cacheVideos (cacheVideo now cache vid vurl None) xs) \<le> MAX_CACHE_SIZE"
  proof (rule Cons.IH)
    show "length (cacheVideo now cache vid vurl None) \<le> MAX_CACHE_SIZE"
      by (rule cacheVideo_bounded[OF Cons.prems(1,2)])
    show "\<forall>p \<in> set (cacheVideo now cache vid vurl None). fst p \<noteq> []"
      by (rule cacheVideo_keys_nonempty[OF Cons.prems(2) v])
    show "\<forall>x \<in> set xs. fst x \<noteq> []" using Cons.prems(3) by simp
  qed
  then show ?case using x by simp
qed

lemma empty_id_breaks_bound:
  "length (cacheVideos [] empty_id_run) = 50
   \<and> length (cacheVideo 51 (cacheVideos [] empty_id_run) ''new'' ''u'' None) = 51"
  by code_simp

text \<open>
  Claim C7 fails where an id is cached twice. \<open>cacheVideo\<close> removes the first key of the
  map, and \<open>set\<close> on a key that is present refreshes \<open>cachedAt\<close> without moving the key.
  After the insertions of \<open>refresh_run\<close> the cache holds fifty entries; its first key is
  \<open>a\<close>, cached at time 3, and the entry with the oldest \<open>cachedAt\<close> is \<open>b\<close>, cached at time
  2. The next insertion removes \<open>a\<close> and keeps \<open>b\<close>.
\<close>

theorem refreshed_entry_evicted:
  "length (cacheVideos [] refresh_run) = 50
   \<and> first_key (cacheVideos [] refresh_run) = Some ''a''
   \<and> map cv_cachedAt (map snd (take 2 (cacheVideos [] refresh_run))) = [3, 2]
   \<and> oldest_cached_keys (cacheVideos [] refresh_run) = [''b'']
   \<and> \<not> map_has (cacheVideo 52 (cacheVideos [] refresh_run) ''new'' ''u'' None) ''a''
   \<and> map_has (cacheVideo 52 (cacheVideos [] refresh_run) ''new'' ''u'' None) ''b''"
  by code_simp

end
